theory Spec2Isabelle
  imports Complex_Main "HOL-Library.Log_Nat"
begin

section \<open>Ledger store\<close>

text \<open>
  The Prisma tables of the backend as lists of rows. Row identifiers (uuid strings the
  database generates, only ever compared for equality) are natural numbers; identifiers
  issued by the payment gateway (wallet, recipient, payout, transaction hash) stay
  strings, because the code tests them for truthiness. A nullable column is an option.
  Store operations are total: a lost database connection is not part of the model.
\<close>

datatype PayrollRunStatus = Run_DRAFT | Run_PENDING | Run_PROCESSING | Run_COMPLETED | Run_FAILED

datatype PayoutStatus = Item_PENDING | Item_PROCESSING | Item_COMPLETED | Item_FAILED

record Worker =
  worker_id :: nat
  worker_name :: string
  worker_email :: string
  walletId :: "string option"
  recipientId :: "string option"

record PayrollRun =
  run_id :: nat
  adminId :: string
  run_status :: PayrollRunStatus
  totalAmount :: string
  totalWorkers :: nat
  run_completedAt :: "nat option"

record PayrollItem =
  item_id :: nat
  payrollRunId :: nat
  workerId :: nat
  amount :: string
  chain :: string
  item_status :: PayoutStatus
  payoutId :: "string option"
  transactionHash :: "string option"
  errorMessage :: "string option"
  item_completedAt :: "nat option"

record AuditLog =
  eventType :: string
  entityType :: string
  entityId :: nat
  audit_workerId :: "nat option"
  audit_payrollRunId :: "nat option"
  audit_oldStatus :: "PayoutStatus option"
  audit_newStatus :: "PayoutStatus option"

record CrossChainTransfer =
  transfer_id :: nat
  messageHash :: "string option"
  attestation :: "string option"
  transfer_status :: string
  transfer_transactionHash :: "string option"

record OperationRow =
  op_workerId :: nat
  op_chain :: string
  userOpHash :: string
  op_status :: string
  op_gasFeeInUSDC :: "string option"

record Store =
  workers :: "Worker list"
  payrollRuns :: "PayrollRun list"
  payrollItems :: "PayrollItem list"
  auditLogs :: "AuditLog list"
  crossChainTransfers :: "CrossChainTransfer list"
  gasStationTransactions :: "OperationRow list"
  paymasterOperations :: "OperationRow list"
  nextId :: nat

text \<open>\<^verbatim>\<open>PayrollError(message, code, statusCode)\<close> of the shared types.\<close>

record PayrollError =
  err_message :: string
  err_code :: string
  err_statusCode :: nat

text \<open>A thrown JavaScript value: an \<^verbatim>\<open>Error\<close> with its message, or anything else.\<close>

datatype thrown = ErrorObj string | NonError

definition error_message :: "thrown \<Rightarrow> string" where
  "error_message e = (case e of ErrorObj m \<Rightarrow> m | NonError \<Rightarrow> ''Unknown error'')"

text \<open>JavaScript truthiness of a nullable string: null and the empty string are falsy.\<close>

definition truthy :: "string option \<Rightarrow> bool" where
  "truthy v = (case v of None \<Rightarrow> False | Some s \<Rightarrow> s \<noteq> [])"

text \<open>\<^verbatim>\<open>String.prototype.toLowerCase\<close> on the ASCII letters (a \<^typ>\<open>char\<close> is a byte).\<close>

definition lower_char :: "char \<Rightarrow> char" where
  "lower_char c =
     (if (65::nat) \<le> of_char c \<and> of_char c \<le> (90::nat) then char_of (of_char c + (32::nat)) else c)"

definition toLowerCase :: "string \<Rightarrow> string" where
  "toLowerCase s = map lower_char s"

definition find_run :: "nat \<Rightarrow> Store \<Rightarrow> PayrollRun option" where
  "find_run rid s = find (\<lambda>r. run_id r = rid) (payrollRuns s)"

definition update_run :: "nat \<Rightarrow> (PayrollRun \<Rightarrow> PayrollRun) \<Rightarrow> Store \<Rightarrow> Store" where
  "update_run rid f s =
     s\<lparr>payrollRuns := map (\<lambda>r. if run_id r = rid then f r else r) (payrollRuns s)\<rparr>"

definition update_item :: "nat \<Rightarrow> (PayrollItem \<Rightarrow> PayrollItem) \<Rightarrow> Store \<Rightarrow> Store" where
  "update_item iid f s =
     s\<lparr>payrollItems := map (\<lambda>i. if item_id i = iid then f i else i) (payrollItems s)\<rparr>"

definition find_item :: "nat \<Rightarrow> Store \<Rightarrow> PayrollItem option" where
  "find_item iid s = find (\<lambda>i. item_id i = iid) (payrollItems s)"

text \<open>
  \<^verbatim>\<open>findUnique({ where: { id }, include: { payrollItems: { include: { worker: true } } } })\<close>:
  the items of the run, each joined with its worker row.
\<close>

definition run_items :: "nat \<Rightarrow> Store \<Rightarrow> (PayrollItem \<times> Worker option) list" where
  "run_items rid s =
     map (\<lambda>i. (i, find (\<lambda>w. worker_id w = workerId i) (workers s)))
       (filter (\<lambda>i. payrollRunId i = rid) (payrollItems s))"

section \<open>Payroll run execution\<close>

text \<open>
  The two external payment paths. What the gateway answers is not in the repository, so
  it is a parameter: each path either throws or returns the provider's transaction.
  The gasless answer is indexed by the item as well, since two calls with equal
  arguments may be answered differently.
\<close>

record GatewayTx =
  tx_id :: "string option"
  tx_transactionHash :: "string option"

record Gateway =
  createGaslessTransfer :: "nat \<Rightarrow> string \<Rightarrow> string \<Rightarrow> string \<Rightarrow> string \<Rightarrow> thrown + GatewayTx"
  createPayout :: "string \<Rightarrow> string \<Rightarrow> string \<Rightarrow> string \<Rightarrow> nat \<Rightarrow> thrown + GatewayTx"

datatype path_call = GaslessCall nat | CustodialCall nat

record Payout =
  p_id :: "string option"
  p_transactionHash :: "string option"
  p_type :: string

definition executeGaslessPayment :: "Gateway \<Rightarrow> PayrollItem \<Rightarrow> Worker \<Rightarrow> thrown + Payout" where
  "executeGaslessPayment gw item worker =
     (case createGaslessTransfer gw (item_id item) (the (walletId worker))
             (toLowerCase (chain item)) (the (walletId worker)) (amount item) of
        Inl e \<Rightarrow> Inl e
      | Inr t \<Rightarrow> Inr \<lparr>p_id = tx_id t, p_transactionHash = tx_transactionHash t,
                      p_type = ''gasless''\<rparr>)"

definition executeCirclePayout :: "Gateway \<Rightarrow> PayrollItem \<Rightarrow> Worker \<Rightarrow> thrown + Payout" where
  "executeCirclePayout gw item worker =
     (case createPayout gw (the (recipientId worker)) (amount item) (toLowerCase (chain item))
             ''0x742d35Cc6634C0532925a3b8D0C9C5e3F6C4C3C3'' (item_id item) of
        Inl e \<Rightarrow> Inl e
      | Inr t \<Rightarrow> Inr \<lparr>p_id = tx_id t, p_transactionHash = None, p_type = ''circle_payout''\<rparr>)"

text \<open>
  The choice of path inside the loop body of \<^verbatim>\<open>executePayrollRun\<close>, with the calls it
  makes. A missing worker row (excluded by the foreign key) makes the property access
  throw a TypeError inside the item's \<^verbatim>\<open>try\<close>.
\<close>

definition dispatch :: "Gateway \<Rightarrow> PayrollItem \<Rightarrow> Worker option \<Rightarrow> (thrown + Payout) \<times> path_call list" where
  "dispatch gw item wo =
     (case wo of
        None \<Rightarrow> (Inl (ErrorObj ''Cannot read properties of null''), [])
      | Some worker \<Rightarrow>
          if truthy (walletId worker) then
            (executeGaslessPayment gw item worker, [GaslessCall (item_id item)])
          else if truthy (recipientId worker) then
            (executeCirclePayout gw item worker, [CustodialCall (item_id item)])
          else (Inl (ErrorObj ''Worker has no wallet or recipient configured''), []))"

record ItemResult =
  res_payrollItemId :: nat
  res_workerId :: nat
  res_status :: string
  res_payoutId :: "string option"
  res_error :: "string option"

text \<open>
  Prisma leaves a column alone when the value given for it is \<^verbatim>\<open>undefined\<close>; an
  absent identifier of the payout is such a value.
\<close>

definition set_opt :: "'a option \<Rightarrow> 'a option \<Rightarrow> 'a option" where
  "set_opt new old = (case new of None \<Rightarrow> old | Some v \<Rightarrow> Some v)"

type_synonym exec_state = "Store \<times> ItemResult list \<times> path_call list"

definition process_item :: "Gateway \<Rightarrow> nat \<Rightarrow> PayrollItem \<times> Worker option \<Rightarrow> exec_state \<Rightarrow> exec_state" where
  "process_item gw now iw st =
     (case st of (s, results, calls) \<Rightarrow>
      (case iw of (item, wo) \<Rightarrow>
        let s1 = update_item (item_id item) (\<lambda>i. i\<lparr>item_status := Item_PROCESSING\<rparr>) s in
        (case dispatch gw item wo of
           (Inr payout, cs) \<Rightarrow>
             (update_item (item_id item)
                (\<lambda>i. i\<lparr>item_status := Item_COMPLETED,
                        payoutId := set_opt (p_id payout) (payoutId i),
                        transactionHash := set_opt (p_transactionHash payout) (transactionHash i),
                        item_completedAt := Some now\<rparr>) s1,
              results @ [\<lparr>res_payrollItemId = item_id item, res_workerId = workerId item,
                          res_status = ''completed'', res_payoutId = p_id payout,
                          res_error = None\<rparr>],
              calls @ cs)
         | (Inl e, cs) \<Rightarrow>
             (update_item (item_id item)
                (\<lambda>i. i\<lparr>item_status := Item_FAILED, errorMessage := Some (error_message e)\<rparr>) s1,
              results @ [\<lparr>res_payrollItemId = item_id item, res_workerId = workerId item,
                          res_status = ''failed'', res_payoutId = None,
                          res_error = Some (error_message e)\<rparr>],
              calls @ cs))))"

primrec process_items :: "Gateway \<Rightarrow> nat \<Rightarrow> (PayrollItem \<times> Worker option) list \<Rightarrow> exec_state \<Rightarrow> exec_state" where
  "process_items gw now [] st = st"
| "process_items gw now (iw # rest) st = process_items gw now rest (process_item gw now iw st)"

record ExecSummary =
  sum_total :: nat
  sum_completed :: nat
  sum_failed :: nat

record ExecResult =
  exec_payrollRunId :: nat
  exec_status :: PayrollRunStatus
  exec_results :: "ItemResult list"
  exec_summary :: ExecSummary

definition run_not_found :: PayrollError where
  "run_not_found =
     \<lparr>err_message = ''Payroll run not found'', err_code = ''PAYROLL_RUN_NOT_FOUND'',
      err_statusCode = 404\<rparr>"

definition run_not_pending :: PayrollError where
  "run_not_pending =
     \<lparr>err_message = ''Payroll run is not in pending status'',
      err_code = ''PAYROLL_RUN_NOT_FOUND'', err_statusCode = 400\<rparr>"

definition final_status :: "ItemResult list \<Rightarrow> PayrollRunStatus" where
  "final_status results =
     (let completedCount = length (filter (\<lambda>r. res_status r = ''completed'') results);
          failedCount = length (filter (\<lambda>r. res_status r = ''failed'') results)
      in if failedCount = 0 then Run_COMPLETED
         else if completedCount = 0 then Run_FAILED
         else Run_COMPLETED)"

text \<open>
  \<^verbatim>\<open>PayrollService.executePayrollRun\<close>. The result is what the promise settles with,
  the store after the call, and the payment calls made. Both early throws pass through
  the outer \<^verbatim>\<open>catch\<close>, which sets the run FAILED (an update of a missing run is
  swallowed) and rethrows.
\<close>

definition executePayrollRun :: "Gateway \<Rightarrow> nat \<Rightarrow> nat \<Rightarrow> Store \<Rightarrow> (PayrollError + ExecResult) \<times> Store \<times> path_call list" where
  "executePayrollRun gw now rid s =
     (case find_run rid s of
        None \<Rightarrow> (Inl run_not_found, update_run rid (\<lambda>r. r\<lparr>run_status := Run_FAILED\<rparr>) s, [])
      | Some payrollRun \<Rightarrow>
          if run_status payrollRun \<noteq> Run_PENDING then
            (Inl run_not_pending, update_run rid (\<lambda>r. r\<lparr>run_status := Run_FAILED\<rparr>) s, [])
          else
            (case process_items gw now (run_items rid s)
                    (update_run rid (\<lambda>r. r\<lparr>run_status := Run_PROCESSING\<rparr>) s, [], []) of
               (s2, results, calls) \<Rightarrow>
                 (Inr \<lparr>exec_payrollRunId = rid, exec_status = final_status results,
                        exec_results = results,
                        exec_summary =
                          \<lparr>sum_total = length results,
                           sum_completed = length (filter (\<lambda>r. res_status r = ''completed'') results),
                           sum_failed = length (filter (\<lambda>r. res_status r = ''failed'') results)\<rparr>\<rparr>,
                  update_run rid
                    (\<lambda>r. r\<lparr>run_status := final_status results, run_completedAt := Some now\<rparr>) s2,
                  calls)))"

text \<open>Whether the path chosen for an item (joined with its worker) returns a payout.\<close>

definition dispatch_succeeds :: "Gateway \<Rightarrow> PayrollItem \<times> Worker option \<Rightarrow> bool" where
  "dispatch_succeeds gw iw = (\<not> isl (fst (dispatch gw (fst iw) (snd iw))))"

section \<open>JavaScript numbers\<close>

text \<open>
  A Number is an IEEE 754 binary64 value: a finite one is the rational it denotes (the
  sign of zero is dropped). \<open>to_double\<close> rounds a rational to the nearest double, ties
  to the even significand, with gradual underflow and overflow to infinity.
\<close>

datatype js_number = NaN | PosInf | NegInf | Fin rat

definition floor_log2 :: "rat \<Rightarrow> int" where
  "floor_log2 x = (if 1 \<le> x then bitlen \<lfloor>x\<rfloor> - 1 else - bitlen (\<lceil>1 / x\<rceil> - 1))"

definition round_half_even :: "rat \<Rightarrow> int" where
  "round_half_even q =
     (let f = \<lfloor>q\<rfloor>; d = q - of_int f
      in if d < 1 / 2 then f else if 1 / 2 < d then f + 1 else if even f then f else f + 1)"

definition to_double :: "rat \<Rightarrow> js_number" where
  "to_double x =
     (if x = 0 then Fin 0
      else let e = max (floor_log2 \<bar>x\<bar> - 52) (- 1074);
               v = of_int (round_half_even (\<bar>x\<bar> / 2 powi e)) * 2 powi e
           in if of_int (2 ^ 1024) \<le> v then (if x < 0 then NegInf else PosInf)
              else Fin (sgn x * v))"

fun js_add :: "js_number \<Rightarrow> js_number \<Rightarrow> js_number" where
  "js_add NaN y = NaN"
| "js_add x NaN = NaN"
| "js_add PosInf NegInf = NaN"
| "js_add NegInf PosInf = NaN"
| "js_add PosInf y = PosInf"
| "js_add x PosInf = PosInf"
| "js_add NegInf y = NegInf"
| "js_add x NegInf = NegInf"
| "js_add (Fin a) (Fin b) = to_double (a + b)"

definition inf_of_sign :: "rat \<Rightarrow> js_number" where
  "inf_of_sign q = (if q = 0 then NaN else if 0 < q then PosInf else NegInf)"

fun js_mul :: "js_number \<Rightarrow> js_number \<Rightarrow> js_number" where
  "js_mul NaN y = NaN"
| "js_mul x NaN = NaN"
| "js_mul (Fin a) (Fin b) = to_double (a * b)"
| "js_mul (Fin a) PosInf = inf_of_sign a"
| "js_mul (Fin a) NegInf = inf_of_sign (- a)"
| "js_mul PosInf (Fin b) = inf_of_sign b"
| "js_mul NegInf (Fin b) = inf_of_sign (- b)"
| "js_mul PosInf PosInf = PosInf"
| "js_mul NegInf NegInf = PosInf"
| "js_mul PosInf NegInf = NegInf"
| "js_mul NegInf PosInf = NegInf"

text \<open>Division, for a divisor that is not zero (the only divisor in the code is 1e18).\<close>

fun js_div :: "js_number \<Rightarrow> js_number \<Rightarrow> js_number" where
  "js_div (Fin a) (Fin b) = (if b = 0 then NaN else to_double (a / b))"
| "js_div PosInf (Fin b) = (if 0 < b then PosInf else if b < 0 then NegInf else NaN)"
| "js_div NegInf (Fin b) = (if 0 < b then NegInf else if b < 0 then PosInf else NaN)"
| "js_div (Fin a) PosInf = Fin 0"
| "js_div (Fin a) NegInf = Fin 0"
| "js_div x y = NaN"

fun js_gt :: "js_number \<Rightarrow> js_number \<Rightarrow> bool" where
  "js_gt (Fin a) (Fin b) = (b < a)"
| "js_gt PosInf (Fin b) = True"
| "js_gt PosInf NegInf = True"
| "js_gt (Fin a) NegInf = True"
| "js_gt x y = False"

text \<open>
  What the runtime does outside the fragment modelled here is a parameter:
  \<^verbatim>\<open>parseFloat\<close> on a string that is not of the amount format, and
  \<^verbatim>\<open>Number.prototype.toString\<close> of a finite number of magnitude at least 1e21.
\<close>

record Builtins =
  parseFloat_other :: "string \<Rightarrow> js_number"
  toString_big :: "rat \<Rightarrow> string"

definition is_digit :: "char \<Rightarrow> bool" where
  "is_digit c = ((48::int) \<le> of_char c \<and> of_char c \<le> (57::int))"

definition digits_val :: "string \<Rightarrow> int" where
  "digits_val ds = foldl (\<lambda>a c. 10 * a + (of_char c - 48)) 0 ds"

text \<open>The amount format \<^verbatim>\<open>/^\d+(\.\d{1,6})?$/\<close> of \<^verbatim>\<open>CSVRowSchema\<close> and \<^verbatim>\<open>isValidUSDCAmount\<close>.\<close>

definition is_amount :: "string \<Rightarrow> bool" where
  "is_amount s =
     (let ip = takeWhile is_digit s; rest = dropWhile is_digit s
      in ip \<noteq> [] \<and>
         (rest = [] \<or>
          (hd rest = CHR ''.'' \<and> 1 \<le> length (tl rest) \<and> length (tl rest) \<le> 6 \<and>
           list_all is_digit (tl rest))))"

text \<open>The value of a string of the amount format in millionths, and as a rational.\<close>

definition amount_micro :: "string \<Rightarrow> int" where
  "amount_micro s =
     (let ip = takeWhile is_digit s; fp = drop 1 (dropWhile is_digit s)
      in digits_val ip * 10 ^ 6 + digits_val fp * 10 ^ (6 - length fp))"

definition amount_value :: "string \<Rightarrow> rat" where
  "amount_value s = of_int (amount_micro s) / 10 ^ 6"

definition parseFloat :: "Builtins \<Rightarrow> string \<Rightarrow> js_number" where
  "parseFloat rt s = (if is_amount s then to_double (amount_value s) else parseFloat_other rt s)"

function show_nat :: "int \<Rightarrow> string" where
  "show_nat n =
     (if n < 10 then [char_of (48 + n)] else show_nat (n div 10) @ [char_of (48 + n mod 10)])"
  by pat_completeness auto
termination
  by (relation "measure nat") auto

declare show_nat.simps [simp del]

text \<open>
  \<^verbatim>\<open>Number.prototype.toFixed(6)\<close>, following ECMA-262: the integer \<open>n\<close> nearest to
  \<open>x * 10^6\<close> (the larger of two), its digits padded to seven, the point before the last
  six.
\<close>

definition fixed6 :: "int \<Rightarrow> string" where
  "fixed6 n =
     (let m = show_nat n;
          m' = (if length m \<le> 6 then replicate (7 - length m) (CHR ''0'') @ m else m)
      in take (length m' - 6) m' @ ''.'' @ drop (length m' - 6) m')"

definition toFixed6 :: "Builtins \<Rightarrow> js_number \<Rightarrow> string" where
  "toFixed6 rt x =
     (case x of
        NaN \<Rightarrow> ''NaN''
      | PosInf \<Rightarrow> ''Infinity''
      | NegInf \<Rightarrow> ''-Infinity''
      | Fin q \<Rightarrow>
          (if q < 0 then ''-'' else []) @
          (if 10 ^ 21 \<le> \<bar>q\<bar> then toString_big rt \<bar>q\<bar>
           else fixed6 \<lfloor>\<bar>q\<bar> * 10 ^ 6 + 1 / 2\<rfloor>))"

text \<open>\<^verbatim>\<open>calculateTotalAmount\<close> of the shared utilities; \<^verbatim>\<open>createPayrollRun\<close> inlines it.\<close>

definition calculateTotalAmount :: "Builtins \<Rightarrow> string list \<Rightarrow> string" where
  "calculateTotalAmount rt amounts =
     toFixed6 rt (foldl (\<lambda>sum a. js_add sum (parseFloat rt a)) (Fin 0) amounts)"

section \<open>Payroll run creation\<close>

text \<open>A validated row of the request: \<^verbatim>\<open>{ name, email, amount, chain }\<close>.\<close>

record WorkerRow =
  row_name :: string
  row_email :: string
  row_amount :: string
  row_chain :: string

text \<open>
  The gateway calls that provision a new worker. Each throws or returns the identifier
  it issued (none when the answer carries no identifier).
\<close>

record Provisioner =
  createRecipient :: "string \<Rightarrow> nat \<Rightarrow> string \<Rightarrow> thrown + string option"
  createWallet :: "nat \<Rightarrow> string \<Rightarrow> thrown + string option"

text \<open>
  What \<^verbatim>\<open>createPayrollRun\<close> does besides writing rows, in order: the bounds of
  \<^verbatim>\<open>prisma.$transaction\<close>, the gateway calls, the warnings logged.
\<close>

datatype create_event =
  TxBegin | TxCommit | CallCreateRecipient string | CallCreateWallet nat | Warn string

definition upper_char :: "char \<Rightarrow> char" where
  "upper_char c =
     (if (97::nat) \<le> of_char c \<and> of_char c \<le> (122::nat) then char_of (of_char c - (32::nat)) else c)"

definition toUpperCase :: "string \<Rightarrow> string" where
  "toUpperCase s = map upper_char s"

definition find_worker_by_email :: "string \<Rightarrow> Store \<Rightarrow> Worker option" where
  "find_worker_by_email e s = find (\<lambda>w. worker_email w = e) (workers s)"

definition update_worker :: "nat \<Rightarrow> (Worker \<Rightarrow> Worker) \<Rightarrow> Store \<Rightarrow> Store" where
  "update_worker wid f s =
     s\<lparr>workers := map (\<lambda>w. if worker_id w = wid then f w else w) (workers s)\<rparr>"

text \<open>
  The first \<^verbatim>\<open>try\<close> block for a new worker. The update of the worker row throws too
  when the identifier is already another worker's (the column is unique); the
  \<^verbatim>\<open>catch\<close> logs a warning and goes on.
\<close>

definition provision_recipient :: "Provisioner \<Rightarrow> WorkerRow \<Rightarrow> nat \<Rightarrow> Store \<Rightarrow> Store \<times> create_event list" where
  "provision_recipient pv row wid s =
     (case createRecipient pv (row_email row) wid (row_name row) of
        Inl e \<Rightarrow> (s, [CallCreateRecipient (row_email row), Warn ''Failed to create Circle recipient''])
      | Inr r \<Rightarrow>
          if r \<noteq> None \<and> (\<exists>w\<in>set (workers s). worker_id w \<noteq> wid \<and> recipientId w = r) then
            (s, [CallCreateRecipient (row_email row), Warn ''Failed to create Circle recipient''])
          else
            (update_worker wid (\<lambda>w. w\<lparr>recipientId := set_opt r (recipientId w)\<rparr>) s,
             [CallCreateRecipient (row_email row)]))"

definition provision_wallet :: "Provisioner \<Rightarrow> WorkerRow \<Rightarrow> nat \<Rightarrow> Store \<Rightarrow> Store \<times> create_event list" where
  "provision_wallet pv row wid s =
     (case createWallet pv wid (row_chain row) of
        Inl e \<Rightarrow> (s, [CallCreateWallet wid, Warn ''Failed to create programmable wallet''])
      | Inr r \<Rightarrow>
          if r \<noteq> None \<and> (\<exists>w\<in>set (workers s). worker_id w \<noteq> wid \<and> walletId w = r) then
            (s, [CallCreateWallet wid, Warn ''Failed to create programmable wallet''])
          else
            (update_worker wid (\<lambda>w. w\<lparr>walletId := set_opt r (walletId w)\<rparr>) s,
             [CallCreateWallet wid]))"

text \<open>Find or create the worker of a row; a created worker is provisioned on the spot.\<close>

definition find_or_create_worker :: "Provisioner \<Rightarrow> WorkerRow \<Rightarrow> Store \<Rightarrow> nat \<times> Store \<times> create_event list" where
  "find_or_create_worker pv row s =
     (case find_worker_by_email (row_email row) s of
        Some w \<Rightarrow> (worker_id w, s, [])
      | None \<Rightarrow>
          let wid = nextId s;
              s0 = s\<lparr>workers := workers s @
                       [\<lparr>worker_id = wid, worker_name = row_name row, worker_email = row_email row,
                         walletId = None, recipientId = None\<rparr>],
                     nextId := Suc (nextId s)\<rparr>;
              (s1, ev1) = provision_recipient pv row wid s0;
              (s2, ev2) = provision_wallet pv row wid s1
          in (wid, s2, ev1 @ ev2))"

type_synonym create_state = "Store \<times> PayrollItem list \<times> create_event list"

text \<open>The body of the loop over \<^verbatim>\<open>request.workers\<close>.\<close>

definition create_row :: "Provisioner \<Rightarrow> nat \<Rightarrow> WorkerRow \<Rightarrow> create_state \<Rightarrow> create_state" where
  "create_row pv rid row st =
     (case st of (s, payrollItems_acc, ev) \<Rightarrow>
      (case find_or_create_worker pv row s of (wid, s1, ev1) \<Rightarrow>
        let payrollItem =
              \<lparr>item_id = nextId s1, payrollRunId = rid, workerId = wid, amount = row_amount row,
               chain = toUpperCase (row_chain row), item_status = Item_PENDING, payoutId = None,
               transactionHash = None, errorMessage = None, item_completedAt = None\<rparr>;
            s2 = s1\<lparr>payrollItems := payrollItems s1 @ [payrollItem],
                    auditLogs := auditLogs s1 @
                      [\<lparr>eventType = ''PAYROLL_ITEM_CREATED'', entityType = ''PayrollItem'',
                        entityId = item_id payrollItem, audit_workerId = Some wid,
                        audit_payrollRunId = Some rid, audit_oldStatus = None,
                        audit_newStatus = None\<rparr>],
                    nextId := Suc (nextId s1)\<rparr>
        in (s2, payrollItems_acc @ [payrollItem], ev @ ev1)))"

primrec create_rows :: "Provisioner \<Rightarrow> nat \<Rightarrow> WorkerRow list \<Rightarrow> create_state \<Rightarrow> create_state" where
  "create_rows pv rid [] st = st"
| "create_rows pv rid (row # rest) st = create_rows pv rid rest (create_row pv rid row st)"

record CreateResult =
  created_payrollRun :: PayrollRun
  created_payrollItems :: "PayrollItem list"

text \<open>
  \<^verbatim>\<open>PayrollService.createPayrollRun\<close>: the total, then inside the transaction the run
  (DRAFT), the rows, the run set PENDING and its audit record. With total store
  operations nothing in the callback throws past its own \<^verbatim>\<open>catch\<close>, so the
  transaction commits.
\<close>

definition createPayrollRun :: "Builtins \<Rightarrow> Provisioner \<Rightarrow> string \<Rightarrow> WorkerRow list \<Rightarrow> Store \<Rightarrow> (PayrollError + CreateResult) \<times> Store \<times> create_event list" where
  "createPayrollRun rt pv admin request_workers s =
     (let total = calculateTotalAmount rt (map row_amount request_workers);
          payrollRun =
            \<lparr>run_id = nextId s, adminId = admin, run_status = Run_DRAFT, totalAmount = total,
             totalWorkers = length request_workers, run_completedAt = None\<rparr>;
          s0 = s\<lparr>payrollRuns := payrollRuns s @ [payrollRun], nextId := Suc (nextId s)\<rparr>
      in case create_rows pv (run_id payrollRun) request_workers (s0, [], []) of
           (s1, payrollItems_acc, ev) \<Rightarrow>
             let updatedPayrollRun = payrollRun\<lparr>run_status := Run_PENDING\<rparr>;
                 s2 = update_run (run_id payrollRun) (\<lambda>r. r\<lparr>run_status := Run_PENDING\<rparr>) s1;
                 s3 = s2\<lparr>auditLogs := auditLogs s2 @
                        [\<lparr>eventType = ''PAYROLL_RUN_CREATED'', entityType = ''PayrollRun'',
                          entityId = run_id payrollRun, audit_workerId = None,
                          audit_payrollRunId = Some (run_id payrollRun), audit_oldStatus = None,
                          audit_newStatus = None\<rparr>]\<rparr>
             in (Inr \<lparr>created_payrollRun = updatedPayrollRun,
                       created_payrollItems = payrollItems_acc\<rparr>,
                 s3, [TxBegin] @ ev @ [TxCommit]))"

text \<open>
  \<^verbatim>\<open>CreatePayrollRunRequestSchema\<close>: an array of rows with a non-empty name, an email
  (zod's test for it is a parameter), any string as amount and a supported chain. The
  array has no minimum length.
\<close>

definition supported_chains :: "string list" where
  "supported_chains = [''ethereum'', ''arbitrum'', ''base'', ''avalanche'', ''polygon'']"

definition CreatePayrollRunRequestSchema :: "(string \<Rightarrow> bool) \<Rightarrow> WorkerRow list \<Rightarrow> bool" where
  "CreatePayrollRunRequestSchema is_email ws =
     list_all (\<lambda>w. row_name w \<noteq> [] \<and> is_email (row_email w) \<and> row_chain w \<in> set supported_chains) ws"

record 'a Reply =
  reply_status :: nat
  reply_error :: "(string \<times> string) option"
  reply_data :: "'a option"

text \<open>\<^verbatim>\<open>POST /api/payroll/runs\<close>.\<close>

definition post_runs :: "(string \<Rightarrow> bool) \<Rightarrow> Builtins \<Rightarrow> Provisioner \<Rightarrow> string option \<Rightarrow> WorkerRow list \<Rightarrow> Store \<Rightarrow> CreateResult Reply \<times> Store" where
  "post_runs is_email rt pv admin_header body s =
     (let admin = (if truthy admin_header then the admin_header else ''admin-1'')
      in if \<not> CreatePayrollRunRequestSchema is_email body then
           (\<lparr>reply_status = 400,
             reply_error = Some (''Invalid request data'', ''INVALID_REQUEST_DATA''),
             reply_data = None\<rparr>, s)
         else
           (case createPayrollRun rt pv admin body s of
              (Inr result, s', ev) \<Rightarrow>
                (\<lparr>reply_status = 201, reply_error = None, reply_data = Some result\<rparr>, s')
            | (Inl e, s', ev) \<Rightarrow>
                (\<lparr>reply_status = 500,
                  reply_error = Some (err_message e, ''PAYROLL_CREATION_ERROR''),
                  reply_data = None\<rparr>, s')))"

section \<open>Webhook reconciliation\<close>

text \<open>
  The switch of \<^verbatim>\<open>updatePayoutStatus\<close> on the lower-cased status reported by the
  provider.
\<close>

definition map_status :: "string \<Rightarrow> PayoutStatus" where
  "map_status status =
     (let l = toLowerCase status
      in if l = ''complete'' \<or> l = ''completed'' then Item_COMPLETED
         else if l = ''failed'' \<or> l = ''error'' then Item_FAILED
         else Item_PROCESSING)"

text \<open>
  \<^verbatim>\<open>findFirst({ where: { payoutId } })\<close>: the first item with that payout identifier;
  Prisma drops a filter whose value is \<^verbatim>\<open>undefined\<close>, so then the first item of all.
\<close>

definition find_by_payout :: "string option \<Rightarrow> Store \<Rightarrow> PayrollItem option" where
  "find_by_payout pid s =
     find (\<lambda>i. case pid of None \<Rightarrow> True | Some p \<Rightarrow> payoutId i = Some p) (payrollItems s)"

text \<open>\<^verbatim>\<open>PayrollService.updatePayoutStatus\<close>.\<close>

definition updatePayoutStatus :: "nat \<Rightarrow> string option \<Rightarrow> string \<Rightarrow> string option \<Rightarrow> Store \<Rightarrow> Store" where
  "updatePayoutStatus now pid status txh s =
     (case find_by_payout pid s of
        None \<Rightarrow> s
      | Some payrollItem \<Rightarrow>
          let newStatus = map_status status;
              s1 = update_item (item_id payrollItem)
                     (\<lambda>i. i\<lparr>item_status := newStatus,
                             transactionHash := set_opt txh (transactionHash i),
                             item_completedAt :=
                               (if newStatus = Item_COMPLETED then Some now else item_completedAt i)\<rparr>) s
          in s1\<lparr>auditLogs := auditLogs s1 @
                  [\<lparr>eventType = ''PAYOUT_STATUS_UPDATED'', entityType = ''PayrollItem'',
                    entityId = item_id payrollItem, audit_workerId = Some (workerId payrollItem),
                    audit_payrollRunId = Some (payrollRunId payrollItem),
                    audit_oldStatus = Some (item_status payrollItem),
                    audit_newStatus = Some newStatus\<rparr>]\<rparr>)"

text \<open>A status update as a webhook delivers it, and a sequence of them applied in order.\<close>

record StatusUpdate =
  upd_payoutId :: "string option"
  upd_status :: string
  upd_transactionHash :: "string option"

definition apply_updates :: "nat \<Rightarrow> StatusUpdate list \<Rightarrow> Store \<Rightarrow> Store" where
  "apply_updates now us s =
     foldl (\<lambda>st u. updatePayoutStatus now (upd_payoutId u) (upd_status u) (upd_transactionHash u) st) s us"

definition terminal :: "PayoutStatus \<Rightarrow> bool" where
  "terminal st = (st = Item_COMPLETED \<or> st = Item_FAILED)"

definition reports_terminal :: "string \<Rightarrow> bool" where
  "reports_terminal status =
     (toLowerCase status \<in> {''complete'', ''completed'', ''failed'', ''error''})"

text \<open>
  \<^verbatim>\<open>verifyWebhookSignature\<close>. The keyed hash is a parameter. A missing header makes
  \<^verbatim>\<open>Buffer.from\<close> throw and a signature of another length makes
  \<^verbatim>\<open>timingSafeEqual\<close> throw; the \<^verbatim>\<open>catch\<close> answers false.
\<close>

definition verifyWebhookSignature :: "(string \<Rightarrow> string \<Rightarrow> string) \<Rightarrow> string \<Rightarrow> string \<Rightarrow> string option \<Rightarrow> bool" where
  "verifyWebhookSignature hmac secret payload signature =
     (case signature of
        None \<Rightarrow> False
      | Some sg \<Rightarrow>
          let expected = ''sha256='' @ hmac secret payload
          in if length sg \<noteq> length expected then False else sg = expected)"

text \<open>The bodies of the four webhook endpoints; a field the sender left out is \<open>None\<close>.\<close>

record CircleData =
  data_id :: "string option"
  data_transactionHash :: "string option"
  data_errorMessage :: "string option"

record CircleBody =
  body_eventType :: "string option"
  body_data :: "CircleData option"

record CctpBody =
  cctp_messageHash :: "string option"
  cctp_attestation :: "string option"
  cctp_status :: "string option"

record OperationBody =
  ob_hash :: "string option"
  ob_status :: "string option"
  ob_gasFeeInUSDC :: "string option"

text \<open>
  The routes module imports the router, the crypto library, the payroll service, the
  logger and the response helpers, and nothing else: the identifier \<^verbatim>\<open>prisma\<close> that
  its handlers use for \<^verbatim>\<open>updateMany\<close> is bound nowhere. Evaluating it throws a
  ReferenceError before any query is made, so the update the handler describes (the
  first argument here) is never applied.
\<close>

definition prisma_updateMany :: "(Store \<Rightarrow> Store) \<Rightarrow> Store \<Rightarrow> thrown + Store" where
  "prisma_updateMany upd s = Inl (ErrorObj ''prisma is not defined'')"

text \<open>The transfers matched by message hash or transaction hash, as the handlers select them.\<close>

definition update_transfers :: "string option \<Rightarrow> (CrossChainTransfer \<Rightarrow> CrossChainTransfer) \<Rightarrow> Store \<Rightarrow> Store" where
  "update_transfers tid f s =
     s\<lparr>crossChainTransfers :=
         map (\<lambda>t. if (case tid of None \<Rightarrow> True
                      | Some h \<Rightarrow> messageHash t = Some h \<or> transfer_transactionHash t = Some h)
                  then f t else t) (crossChainTransfers s)\<rparr>"

definition invalid_signature_reply :: "unit Reply" where
  "invalid_signature_reply =
     \<lparr>reply_status = 401,
      reply_error = Some (''Invalid webhook signature'', ''INVALID_SIGNATURE''),
      reply_data = None\<rparr>"

definition received_reply :: "unit Reply" where
  "received_reply = \<lparr>reply_status = 200, reply_error = None, reply_data = Some ()\<rparr>"

definition processing_error_reply :: "string \<Rightarrow> string \<Rightarrow> unit Reply" where
  "processing_error_reply msg code =
     \<lparr>reply_status = 500, reply_error = Some (msg, code), reply_data = None\<rparr>"

text \<open>
  \<^verbatim>\<open>handleTransferCompleted\<close> and \<^verbatim>\<open>handleTransferFailed\<close>: both go through the
  unbound \<^verbatim>\<open>prisma\<close>, log, and rethrow.
\<close>

definition handleTransferCompleted :: "CircleData \<Rightarrow> Store \<Rightarrow> thrown + Store" where
  "handleTransferCompleted d s =
     prisma_updateMany
       (update_transfers (data_id d)
          (\<lambda>t. t\<lparr>transfer_status := ''COMPLETED'',
                  transfer_transactionHash :=
                    set_opt (data_transactionHash d) (transfer_transactionHash t)\<rparr>)) s"

definition handleTransferFailed :: "CircleData \<Rightarrow> Store \<Rightarrow> thrown + Store" where
  "handleTransferFailed d s =
     prisma_updateMany
       (update_transfers (data_id d) (\<lambda>t. t\<lparr>transfer_status := ''FAILED''\<rparr>)) s"

text \<open>
  \<^verbatim>\<open>POST /api/webhooks/circle\<close>. The payload that is signed is
  \<^verbatim>\<open>JSON.stringify(req.body)\<close>, here a parameter. Destructuring a missing
  \<^verbatim>\<open>data\<close> throws; whatever a handler throws, the route answers with 500.
\<close>

definition post_circle :: "(string \<Rightarrow> string \<Rightarrow> string) \<Rightarrow> string \<Rightarrow> (CircleBody \<Rightarrow> string) \<Rightarrow> nat \<Rightarrow> string option \<Rightarrow> CircleBody \<Rightarrow> Store \<Rightarrow> unit Reply \<times> Store" where
  "post_circle hmac secret stringify now signature body s =
     (if \<not> verifyWebhookSignature hmac secret (stringify body) signature then
        (invalid_signature_reply, s)
      else if body_eventType body \<in> Some ` {''payouts.completed'', ''payouts.failed'',
                ''transfers.completed'', ''transfers.failed''} then
        (case body_data body of
           None \<Rightarrow> (processing_error_reply ''Failed to process webhook'' ''WEBHOOK_PROCESSING_ERROR'', s)
         | Some d \<Rightarrow>
             if body_eventType body = Some ''payouts.completed'' then
               (received_reply,
                updatePayoutStatus now (data_id d) ''completed'' (data_transactionHash d) s)
             else if body_eventType body = Some ''payouts.failed'' then
               (received_reply, updatePayoutStatus now (data_id d) ''failed'' None s)
             else
               (case (if body_eventType body = Some ''transfers.completed''
                      then handleTransferCompleted d s else handleTransferFailed d s) of
                  Inl e \<Rightarrow>
                    (processing_error_reply ''Failed to process webhook''
                       ''WEBHOOK_PROCESSING_ERROR'', s)
                | Inr s' \<Rightarrow> (received_reply, s')))
      else (received_reply, s))"

text \<open>
  \<^verbatim>\<open>POST /api/webhooks/cctp\<close>. The handler reads no header; the signature is an
  argument here only so that the request is the same as for the other endpoints. An
  \<open>attested\<close> notification with an attestation reaches the unbound \<^verbatim>\<open>prisma\<close> and
  is answered 500; any other notification is answered 200.
\<close>

definition post_cctp :: "string option \<Rightarrow> CctpBody \<Rightarrow> Store \<Rightarrow> unit Reply \<times> Store" where
  "post_cctp signature body s =
     (if cctp_status body = Some ''attested'' \<and> truthy (cctp_attestation body) then
        (case prisma_updateMany
                (\<lambda>st. st\<lparr>crossChainTransfers :=
                   map (\<lambda>t. if (case cctp_messageHash body of None \<Rightarrow> True
                                | Some h \<Rightarrow> messageHash t = Some h)
                            then t\<lparr>attestation := cctp_attestation body,
                                   transfer_status := ''ATTESTED''\<rparr>
                            else t) (crossChainTransfers st)\<rparr>) s of
           Inl e \<Rightarrow>
             (processing_error_reply ''Failed to process CCTP webhook'' ''CCTP_WEBHOOK_ERROR'', s)
         | Inr s' \<Rightarrow> (received_reply, s'))
      else (received_reply, s))"

definition update_operations :: "OperationBody \<Rightarrow> OperationRow list \<Rightarrow> OperationRow list" where
  "update_operations body rows =
     map (\<lambda>r. if (case ob_hash body of None \<Rightarrow> True | Some h \<Rightarrow> userOpHash r = h)
              then r\<lparr>op_status := (case ob_status body of None \<Rightarrow> op_status r | Some st \<Rightarrow> st),
                     op_gasFeeInUSDC := set_opt (ob_gasFeeInUSDC body) (op_gasFeeInUSDC r)\<rparr>
              else r) rows"

text \<open>
  \<^verbatim>\<open>POST /api/webhooks/gas-station\<close> and \<^verbatim>\<open>POST /api/webhooks/paymaster\<close>. Neither
  reads a header, and both reach the unbound \<^verbatim>\<open>prisma\<close> on every request.
\<close>

definition post_gas_station :: "string option \<Rightarrow> OperationBody \<Rightarrow> Store \<Rightarrow> unit Reply \<times> Store" where
  "post_gas_station signature body s =
     (case prisma_updateMany
             (\<lambda>st. st\<lparr>gasStationTransactions :=
                update_operations (body\<lparr>ob_gasFeeInUSDC := None\<rparr>) (gasStationTransactions st)\<rparr>) s of
        Inl e \<Rightarrow>
          (processing_error_reply ''Failed to process Gas Station webhook''
             ''GAS_STATION_WEBHOOK_ERROR'', s)
      | Inr s' \<Rightarrow> (received_reply, s'))"

definition post_paymaster :: "string option \<Rightarrow> OperationBody \<Rightarrow> Store \<Rightarrow> unit Reply \<times> Store" where
  "post_paymaster signature body s =
     (case prisma_updateMany
             (\<lambda>st. st\<lparr>paymasterOperations := update_operations body (paymasterOperations st)\<rparr>) s of
        Inl e \<Rightarrow>
          (processing_error_reply ''Failed to process Paymaster webhook''
             ''PAYMASTER_WEBHOOK_ERROR'', s)
      | Inr s' \<Rightarrow> (received_reply, s'))"

section \<open>Attestation monitoring\<close>

text \<open>What the attestation service answers to one request.\<close>

datatype attestation_response =
  Attestation string | NoAttestation | NotFound404 | RequestFailed thrown

text \<open>\<^verbatim>\<open>CCTPService.getAttestation\<close>: null for a 404 and for an answer without attestation.\<close>

definition getAttestation :: "attestation_response \<Rightarrow> thrown + string option" where
  "getAttestation r =
     (case r of
        Attestation a \<Rightarrow> (if a \<noteq> [] then Inr (Some a) else Inr None)
      | NoAttestation \<Rightarrow> Inr None
      | NotFound404 \<Rightarrow> Inr None
      | RequestFailed e \<Rightarrow> Inl e)"

record CCTPTransfer =
  t_messageHash :: string
  t_attestation :: "string option"
  t_sourceChain :: string
  t_destinationChain :: string
  t_amount :: string
  t_recipient :: string
  t_status :: string

datatype monitor_event = Poll int | Sleep nat | LogError int

text \<open>
  \<^verbatim>\<open>CCTPService.monitorTransfer\<close>, for an integral attempt bound (60 when the caller
  gives none). The service is a function from the attempt counter to its answer; the
  events are the requests, the waits in milliseconds and the errors logged. The
  function reads and writes no table.
\<close>

function monitor_loop :: "(int \<Rightarrow> attestation_response) \<Rightarrow> string \<Rightarrow> int \<Rightarrow> int \<Rightarrow> (thrown + CCTPTransfer) \<times> monitor_event list" where
  "monitor_loop svc h maxAttempts attempts =
     (if attempts < maxAttempts then
        (case getAttestation (svc attempts) of
           Inr (Some a) \<Rightarrow>
             (Inr \<lparr>t_messageHash = h, t_attestation = Some a, t_sourceChain = ''ethereum'',
                    t_destinationChain = ''arbitrum'', t_amount = ''0'', t_recipient = [],
                    t_status = ''attested''\<rparr>, [Poll attempts])
         | Inr None \<Rightarrow>
             (case monitor_loop svc h maxAttempts (attempts + 1) of
                (r, ev) \<Rightarrow> (r, [Poll attempts, Sleep 30000] @ ev))
         | Inl e \<Rightarrow>
             (case monitor_loop svc h maxAttempts (attempts + 1) of
                (r, ev) \<Rightarrow> (r, [Poll attempts, LogError attempts] @ ev)))
      else (Inl (ErrorObj ''Transfer monitoring timeout''), []))"
  by pat_completeness auto
termination
  by (relation "measure (\<lambda>(svc, h, maxAttempts, attempts). nat (maxAttempts - attempts))") auto

declare monitor_loop.simps [simp del]

definition monitorTransfer :: "(int \<Rightarrow> attestation_response) \<Rightarrow> string \<Rightarrow> int option \<Rightarrow> (thrown + CCTPTransfer) \<times> monitor_event list" where
  "monitorTransfer svc h maxAttempts =
     monitor_loop svc h (case maxAttempts of None \<Rightarrow> 60 | Some m \<Rightarrow> m) 0"

definition is_poll :: "monitor_event \<Rightarrow> bool" where
  "is_poll e = (case e of Poll k \<Rightarrow> True | _ \<Rightarrow> False)"

section \<open>Fee-abstracted operations\<close>

record GasEstimate =
  gasLimit :: int
  maxFeePerGas :: int
  maxPriorityFeePerGas :: int

record TransactionRequest =
  tx_to :: string
  tx_data :: string
  tx_value :: "string option"

record Permit =
  permit_owner :: string
  permit_value :: int
  permit_nonce :: int

record UserOperation =
  uo_sender :: string
  uo_nonce :: string
  uo_callData :: string
  uo_callGasLimit :: int
  uo_maxFeePerGas :: int
  uo_maxPriorityFeePerGas :: int
  uo_permit :: Permit

text \<open>
  The chain clients and the bundler, which the repository only calls: each call throws
  or answers.
\<close>

record ChainEnv =
  estimateGas :: "string \<Rightarrow> TransactionRequest \<Rightarrow> thrown + GasEstimate"
  getUSDCNonce :: "string \<Rightarrow> string \<Rightarrow> thrown + int"
  getNonce :: "string \<Rightarrow> string \<Rightarrow> thrown + string"
  sendUserOperation :: "UserOperation \<Rightarrow> string \<Rightarrow> thrown + string"

datatype paymaster_event =
  EstimateGas | ReadUSDCNonce | ReadNonce | SubmitToBundler UserOperation

text \<open>\<^verbatim>\<open>paymasterConfig\<close>: the default ceiling and the slippage tolerance 0.05.\<close>

definition default_maxGasFeeUSDC :: string where
  "default_maxGasFeeUSDC = ''10.00''"

definition slippageTolerance :: js_number where
  "slippageTolerance = to_double (5 / 100)"

text \<open>\<^verbatim>\<open>getNativeTokenPrice\<close>: a fixed table; an unknown chain reads \<^verbatim>\<open>undefined\<close>.\<close>

definition getNativeTokenPrice :: "string \<Rightarrow> js_number" where
  "getNativeTokenPrice c =
     (if c = ''ethereum'' \<or> c = ''arbitrum'' \<or> c = ''base'' then to_double 2500
      else if c = ''avalanche'' then to_double 25
      else if c = ''polygon'' then to_double (8 / 10)
      else NaN)"

text \<open>
  \<^verbatim>\<open>calculateUSDCGasFee\<close>:
  \<^verbatim>\<open>((Number(gasLimit * maxFeePerGas) / 1e18) * price * (1 + slippage)).toFixed(6)\<close>.
\<close>

definition calculateUSDCGasFee :: "Builtins \<Rightarrow> string \<Rightarrow> GasEstimate \<Rightarrow> string" where
  "calculateUSDCGasFee rt c gasEstimate =
     (let totalGasCost = gasLimit gasEstimate * maxFeePerGas gasEstimate;
          nativeTokenPriceUSD = getNativeTokenPrice c;
          gasCostUSD =
            js_mul (js_div (to_double (of_int totalGasCost)) (to_double (10 ^ 18)))
              nativeTokenPriceUSD;
          gasCostUSDC = js_mul gasCostUSD (js_add (Fin 1) slippageTolerance)
      in toFixed6 rt gasCostUSDC)"

definition fee_exceeds_message :: "string \<Rightarrow> string \<Rightarrow> string" where
  "fee_exceeds_message usdcGasFee maxGasFeeUSDC =
     ''Gas fee '' @ usdcGasFee @ '' USDC exceeds maximum '' @ maxGasFeeUSDC @ '' USDC''"

text \<open>
  \<^verbatim>\<open>createUSDCPermit\<close>: reads the token's nonce, then scales the fee to millionths
  (\<^verbatim>\<open>parseUnits(amount, 6)\<close>, which throws on a string that is not a decimal).
\<close>

definition createUSDCPermit :: "ChainEnv \<Rightarrow> string \<Rightarrow> string \<Rightarrow> string \<Rightarrow> (thrown + Permit) \<times> paymaster_event list" where
  "createUSDCPermit env owner c amount_str =
     (case getUSDCNonce env owner c of
        Inl e \<Rightarrow> (Inl e, [ReadUSDCNonce])
      | Inr n \<Rightarrow>
          if is_amount amount_str then
            (Inr \<lparr>permit_owner = owner, permit_value = amount_micro amount_str, permit_nonce = n\<rparr>,
             [ReadUSDCNonce])
          else (Inl (ErrorObj ''invalid decimal number''), [ReadUSDCNonce]))"

record UserOpData =
  uod_userOperation :: UserOperation
  uod_usdcGasFee :: string
  uod_permit :: Permit

text \<open>
  \<^verbatim>\<open>PaymasterService.createUserOperationWithUSDCGas\<close>. A chain without a client makes
  the estimate throw. The ceiling is the caller's, or the configured default when the
  caller gives none.
\<close>

definition createUserOperationWithUSDCGas :: "Builtins \<Rightarrow> ChainEnv \<Rightarrow> string \<Rightarrow> string \<Rightarrow> TransactionRequest \<Rightarrow> string option \<Rightarrow> (thrown + UserOpData) \<times> paymaster_event list" where
  "createUserOperationWithUSDCGas rt env walletAddress c transaction max_opt =
     (let maxGasFeeUSDC = (case max_opt of None \<Rightarrow> default_maxGasFeeUSDC | Some m \<Rightarrow> m)
      in if c \<notin> set supported_chains then
           (Inl (ErrorObj ''Cannot read properties of undefined (reading 'estimateGas')''), [])
         else
           (case estimateGas env c transaction of
              Inl e \<Rightarrow> (Inl e, [EstimateGas])
            | Inr gasEstimate \<Rightarrow>
                let usdcGasFee = calculateUSDCGasFee rt c gasEstimate
                in if js_gt (parseFloat rt usdcGasFee) (parseFloat rt maxGasFeeUSDC) then
                     (Inl (ErrorObj (fee_exceeds_message usdcGasFee maxGasFeeUSDC)), [EstimateGas])
                   else
                     (case createUSDCPermit env walletAddress c usdcGasFee of
                        (Inl e, ev) \<Rightarrow> (Inl e, [EstimateGas] @ ev)
                      | (Inr permit, ev) \<Rightarrow>
                          (case getNonce env walletAddress c of
                             Inl e \<Rightarrow> (Inl e, [EstimateGas] @ ev @ [ReadNonce])
                           | Inr nonce \<Rightarrow>
                               (Inr \<lparr>uod_userOperation =
                                       \<lparr>uo_sender = walletAddress, uo_nonce = nonce,
                                        uo_callData = tx_data transaction,
                                        uo_callGasLimit = gasLimit gasEstimate,
                                        uo_maxFeePerGas = maxFeePerGas gasEstimate,
                                        uo_maxPriorityFeePerGas = maxPriorityFeePerGas gasEstimate,
                                        uo_permit = permit\<rparr>,
                                      uod_usdcGasFee = usdcGasFee, uod_permit = permit\<rparr>,
                                [EstimateGas] @ ev @ [ReadNonce])))))"

text \<open>\<^verbatim>\<open>PaymasterService.submitUserOperation\<close>: the post to the bundler.\<close>

definition submitUserOperation :: "ChainEnv \<Rightarrow> UserOperation \<Rightarrow> string \<Rightarrow> (thrown + string) \<times> paymaster_event list" where
  "submitUserOperation env userOp c = (sendUserOperation env userOp c, [SubmitToBundler userOp])"

record UsdcGasBody =
  ug_chain :: "string option"
  ug_to :: "string option"
  ug_data :: "string option"
  ug_value :: "string option"
  ug_maxGasFeeUSDC :: "string option"

record UsdcGasReply =
  ugr_userOpHash :: string
  ugr_gasFeeInUSDC :: string
  ugr_status :: string

definition find_worker :: "nat \<Rightarrow> Store \<Rightarrow> Worker option" where
  "find_worker wid s = find (\<lambda>w. worker_id w = wid) (workers s)"

definition usdc_gas_error :: "thrown \<Rightarrow> UsdcGasReply Reply" where
  "usdc_gas_error e =
     \<lparr>reply_status = 500,
      reply_error =
        Some (case e of ErrorObj m \<Rightarrow> m | NonError \<Rightarrow> ''Failed to execute USDC gas transaction'',
              ''USDC_GAS_TRANSACTION_ERROR''),
      reply_data = None\<rparr>"

text \<open>
  \<^verbatim>\<open>POST /api/workers/:id/usdc-gas-transaction\<close>: build the operation, submit it,
  record it; any throw on the way is answered with 500 and the thrown message.
\<close>

definition post_usdc_gas_transaction :: "Builtins \<Rightarrow> ChainEnv \<Rightarrow> nat \<Rightarrow> UsdcGasBody \<Rightarrow> Store \<Rightarrow> UsdcGasReply Reply \<times> Store \<times> paymaster_event list" where
  "post_usdc_gas_transaction rt env workerId_param body s =
     (if \<not> truthy (ug_chain body) \<or> \<not> truthy (ug_to body) \<or> \<not> truthy (ug_data body) then
        (\<lparr>reply_status = 400,
          reply_error = Some (''Missing required fields: chain, to, data'', ''MISSING_FIELDS''),
          reply_data = None\<rparr>, s, [])
      else
        (case find_worker workerId_param s of
           None \<Rightarrow>
             (\<lparr>reply_status = 404,
               reply_error = Some (''Worker or wallet not found'', ''WORKER_NOT_FOUND''),
               reply_data = None\<rparr>, s, [])
         | Some worker \<Rightarrow>
             if \<not> truthy (walletId worker) then
               (\<lparr>reply_status = 404,
                 reply_error = Some (''Worker or wallet not found'', ''WORKER_NOT_FOUND''),
                 reply_data = None\<rparr>, s, [])
             else
               (case createUserOperationWithUSDCGas rt env (the (walletId worker))
                       (the (ug_chain body))
                       \<lparr>tx_to = the (ug_to body), tx_data = the (ug_data body),
                        tx_value = ug_value body\<rparr>
                       (ug_maxGasFeeUSDC body) of
                  (Inl e, ev) \<Rightarrow> (usdc_gas_error e, s, ev)
                | (Inr userOpData, ev) \<Rightarrow>
                    (case submitUserOperation env (uod_userOperation userOpData)
                            (the (ug_chain body)) of
                       (Inl e, ev2) \<Rightarrow> (usdc_gas_error e, s, ev @ ev2)
                     | (Inr h, ev2) \<Rightarrow>
                         (\<lparr>reply_status = 200, reply_error = None,
                           reply_data =
                             Some \<lparr>ugr_userOpHash = h,
                                   ugr_gasFeeInUSDC = uod_usdcGasFee userOpData,
                                   ugr_status = ''pending''\<rparr>\<rparr>,
                          s\<lparr>paymasterOperations := paymasterOperations s @
                              [\<lparr>op_workerId = workerId_param,
                                op_chain = toUpperCase (the (ug_chain body)),
                                userOpHash = h, op_status = ''pending'',
                                op_gasFeeInUSDC = Some (uod_usdcGasFee userOpData)\<rparr>]\<rparr>,
                          ev @ ev2)))))"

definition is_submit :: "paymaster_event \<Rightarrow> bool" where
  "is_submit e = (case e of SubmitToBundler u \<Rightarrow> True | _ \<Rightarrow> False)"

text \<open>
  The invariant of the creation loop, for the workers created since the counter stood
  at \<open>n0\<close>: identifiers are below the counter; a worker whose recipient call throws
  has no recipient and a warning was logged, and likewise for the wallet; and the
  events logged by the loop are not transaction bounds.
\<close>

definition create_inv :: "Provisioner \<Rightarrow> nat \<Rightarrow> Store \<Rightarrow> create_event list \<Rightarrow> bool" where
  "create_inv pv n0 s ev =
     ((\<forall>w\<in>set (workers s). worker_id w < nextId s) \<and> n0 \<le> nextId s \<and>
      (\<forall>w\<in>set (workers s). n0 \<le> worker_id w \<longrightarrow>
         (createRecipient pv (worker_email w) (worker_id w) (worker_name w) \<in> range Inl \<longrightarrow>
            recipientId w = None \<and> Warn ''Failed to create Circle recipient'' \<in> set ev) \<and>
         ((\<forall>c. createWallet pv (worker_id w) c \<in> range Inl) \<longrightarrow>
            walletId w = None \<and> Warn ''Failed to create programmable wallet'' \<in> set ev)) \<and>
      TxBegin \<notin> set ev \<and> TxCommit \<notin> set ev)"

section \<open>Sample data\<close>

text \<open>
  Three workers: one with a wallet, one with a recipient only, one with neither; a
  pending run with an item for each; a gateway whose gasless path answers and whose
  custodial path throws, and one where both throw.
\<close>

definition sample_workers :: "Worker list" where
  "sample_workers =
     [\<lparr>worker_id = 1, worker_name = ''A'', worker_email = ''a@x.com'',
       walletId = Some ''wallet-1'', recipientId = Some ''rcp-1''\<rparr>,
      \<lparr>worker_id = 2, worker_name = ''B'', worker_email = ''b@x.com'',
       walletId = None, recipientId = Some ''rcp-2''\<rparr>,
      \<lparr>worker_id = 3, worker_name = ''C'', worker_email = ''c@x.com'',
       walletId = None, recipientId = None\<rparr>]"

definition sample_item :: "nat \<Rightarrow> nat \<Rightarrow> string \<Rightarrow> PayrollItem" where
  "sample_item iid wid amt =
     \<lparr>item_id = iid, payrollRunId = 10, workerId = wid, amount = amt, chain = ''ETHEREUM'',
      item_status = Item_PENDING, payoutId = None, transactionHash = None,
      errorMessage = None, item_completedAt = None\<rparr>"

definition sample_run :: PayrollRun where
  "sample_run =
     \<lparr>run_id = 10, adminId = ''admin-1'', run_status = Run_PENDING,
      totalAmount = ''17.750000'', totalWorkers = 3, run_completedAt = None\<rparr>"

definition sample_store :: Store where
  "sample_store =
     \<lparr>workers = sample_workers, payrollRuns = [sample_run],
      payrollItems = [sample_item 11 1 ''10.50'', sample_item 12 2 ''5.25'', sample_item 13 3 ''2.00''],
      auditLogs = [], crossChainTransfers = [], gasStationTransactions = [],
      paymasterOperations = [], nextId = 14\<rparr>"

definition sample_gateway :: Gateway where
  "sample_gateway =
     \<lparr>createGaslessTransfer =
        (\<lambda>i w c r a. Inr \<lparr>tx_id = Some ''tx-1'', tx_transactionHash = Some ''0xabc''\<rparr>),
      createPayout = (\<lambda>r a c d i. Inl (ErrorObj ''payout rejected''))\<rparr>"

definition failing_gateway :: Gateway where
  "failing_gateway =
     \<lparr>createGaslessTransfer = (\<lambda>i w c r a. Inl (ErrorObj ''bundler down'')),
      createPayout = (\<lambda>r a c d i. Inl NonError)\<rparr>"

text \<open>An empty ledger, a runtime, a test for emails, and a provisioner whose calls throw.\<close>

definition empty_store :: Store where
  "empty_store =
     \<lparr>workers = [], payrollRuns = [], payrollItems = [], auditLogs = [],
      crossChainTransfers = [], gasStationTransactions = [], paymasterOperations = [],
      nextId = 0\<rparr>"

definition sample_builtins :: Builtins where
  "sample_builtins = \<lparr>parseFloat_other = (\<lambda>s. NaN), toString_big = (\<lambda>q. ''1e+21'')\<rparr>"

definition sample_is_email :: "string \<Rightarrow> bool" where
  "sample_is_email e = (CHR ''@'' \<in> set e)"

definition failing_provisioner :: Provisioner where
  "failing_provisioner =
     \<lparr>createRecipient = (\<lambda>e w n. Inl (ErrorObj ''recipient service down'')),
      createWallet = (\<lambda>w c. Inl NonError)\<rparr>"

text \<open>A ledger with one item already COMPLETED under payout \<open>po-1\<close>.\<close>

definition paid_store :: Store where
  "paid_store =
     empty_store\<lparr>workers := sample_workers,
       payrollRuns := [sample_run\<lparr>run_status := Run_COMPLETED, run_completedAt := Some 50\<rparr>],
       payrollItems :=
         [(sample_item 11 2 ''5.25'')\<lparr>item_status := Item_COMPLETED, payoutId := Some ''po-1'',
            item_completedAt := Some 50\<rparr>],
       nextId := 14\<rparr>"

text \<open>
  A ledger with a pending cross-chain transfer and one pending operation of each
  kind; a keyed hash for the examples (any function will do).
\<close>

definition transfer_store :: Store where
  "transfer_store =
     empty_store\<lparr>crossChainTransfers :=
         [\<lparr>transfer_id = 20, messageHash = Some ''0xmsg'', attestation = None,
           transfer_status = ''PENDING'', transfer_transactionHash = None\<rparr>],
       gasStationTransactions :=
         [\<lparr>op_workerId = 1, op_chain = ''ETHEREUM'', userOpHash = ''tx-1'',
           op_status = ''pending'', op_gasFeeInUSDC = None\<rparr>],
       paymasterOperations :=
         [\<lparr>op_workerId = 1, op_chain = ''ETHEREUM'', userOpHash = ''0xop'',
           op_status = ''pending'', op_gasFeeInUSDC = Some ''0.10''\<rparr>],
       nextId := 21\<rparr>"

definition sample_hmac :: "string \<Rightarrow> string \<Rightarrow> string" where
  "sample_hmac secret payload = rev secret @ payload"

definition sample_stringify :: "CircleBody \<Rightarrow> string" where
  "sample_stringify b =
     (case body_eventType b of None \<Rightarrow> [] | Some e \<Rightarrow> e) @ '':'' @
     (case body_data b of None \<Rightarrow> []
      | Some d \<Rightarrow> (case data_id d of None \<Rightarrow> [] | Some i \<Rightarrow> i))"

definition payout_failed_body :: CircleBody where
  "payout_failed_body =
     \<lparr>body_eventType = Some ''payouts.failed'',
      body_data = Some \<lparr>data_id = Some ''po-1'', data_transactionHash = None,
                        data_errorMessage = Some ''bounced''\<rparr>\<rparr>"

definition other_body :: CircleBody where
  "other_body =
     \<lparr>body_eventType = Some ''payouts.completed'',
      body_data = Some \<lparr>data_id = Some ''po-2'', data_transactionHash = Some ''0xh'',
                        data_errorMessage = None\<rparr>\<rparr>"

text \<open>An attestation service whose every request fails, and one that always answers 404.\<close>

definition erroring_service :: "int \<Rightarrow> attestation_response" where
  "erroring_service k = RequestFailed (ErrorObj ''ECONNRESET'')"

definition pending_service :: "int \<Rightarrow> attestation_response" where
  "pending_service k = NotFound404"

text \<open>
  Chain clients that estimate 100000 gas at 100 gwei, and a request for a transaction
  on Ethereum with a ceiling of 10 USDC.
\<close>

definition sample_chain_env :: ChainEnv where
  "sample_chain_env =
     \<lparr>estimateGas =
        (\<lambda>c t. Inr \<lparr>gasLimit = 100000, maxFeePerGas = 100000000000,
                     maxPriorityFeePerGas = 1000000000\<rparr>),
      getUSDCNonce = (\<lambda>owner c. Inr 7),
      getNonce = (\<lambda>a c. Inr ''3''),
      sendUserOperation = (\<lambda>u c. Inr ''0xuserop'')\<rparr>"

definition sample_gas_body :: UsdcGasBody where
  "sample_gas_body =
     \<lparr>ug_chain = Some ''ethereum'', ug_to = Some ''0xto'', ug_data = Some ''0xdata'',
      ug_value = None, ug_maxGasFeeUSDC = Some ''10.00''\<rparr>"

text \<open>A request with one row, for a worker not yet in the ledger.\<close>

definition sample_rows :: "WorkerRow list" where
  "sample_rows =
     [\<lparr>row_name = ''A'', row_email = ''a@x.com'', row_amount = ''10.50'',
       row_chain = ''ethereum''\<rparr>]"

text \<open>
  The two rows of the specification's example, a row of 2^53 + 1 whole units, and a
  row of a little over 2^33 units with a millionth.
\<close>

definition example_rows :: "WorkerRow list" where
  "example_rows =
     [\<lparr>row_name = ''A'', row_email = ''a@x.com'', row_amount = ''10.50'',
       row_chain = ''ethereum''\<rparr>,
      \<lparr>row_name = ''B'', row_email = ''b@x.com'', row_amount = ''5.25'',
       row_chain = ''base''\<rparr>]"

definition large_row :: "string \<Rightarrow> WorkerRow list" where
  "large_row amt =
     [\<lparr>row_name = ''A'', row_email = ''a@x.com'', row_amount = amt, row_chain = ''ethereum''\<rparr>]"

text \<open>The run that a call of \<^verbatim>\<open>createPayrollRun\<close> returned, and its items.\<close>

definition created_run :: "(PayrollError + CreateResult) \<times> Store \<times> create_event list \<Rightarrow> PayrollRun option" where
  "created_run out = (case fst out of Inl e \<Rightarrow> None | Inr r \<Rightarrow> Some (created_payrollRun r))"

definition created_items :: "(PayrollError + CreateResult) \<times> Store \<times> create_event list \<Rightarrow> PayrollItem list" where
  "created_items out = (case fst out of Inl e \<Rightarrow> [] | Inr r \<Rightarrow> created_payrollItems r)"

section \<open>Properties of run execution\<close>

lemma find_map_pres:
  assumes "\<And>x. P (g x) = P x"
  shows "find P (map g xs) = map_option g (find P xs)"
  using assms by (induction xs) auto

lemma find_item_update_eq:
  assumes "\<And>i. item_id (f i) = item_id i"
  shows "find_item k (update_item k' f s) =
        (if k = k' then map_option f (find_item k s) else find_item k s)"
proof -
  have key: "find_item k s = Some i \<Longrightarrow> item_id i = k" for i
    unfolding find_item_def by (auto simp: find_Some_iff)
  have "find_item k (update_item k' f s) =
         map_option (\<lambda>i. if item_id i = k' then f i else i) (find_item k s)"
    unfolding find_item_def update_item_def using assms by (simp add: find_map_pres)
  with key show ?thesis by (cases "find_item k s") auto
qed

lemma runs_update_item [simp]: "payrollRuns (update_item k f s) = payrollRuns s"
  by (simp add: update_item_def)

lemma runs_process_item: "payrollRuns (fst (process_item gw now iw st)) = payrollRuns (fst st)"
  by (cases st; cases iw) (simp add: process_item_def Let_def split: prod.splits sum.splits)

lemma runs_process_items: "payrollRuns (fst (process_items gw now xs st)) = payrollRuns (fst st)"
  by (induction xs arbitrary: st) (simp_all add: runs_process_item)

lemma process_item_results:
  "fst (snd (process_item gw now iw st)) =
     fst (snd st) @ [\<lparr>res_payrollItemId = item_id (fst iw), res_workerId = workerId (fst iw),
        res_status = (if dispatch_succeeds gw iw then ''completed'' else ''failed''),
        res_payoutId = (case fst (dispatch gw (fst iw) (snd iw)) of Inr p \<Rightarrow> p_id p | Inl e \<Rightarrow> None),
        res_error = (case fst (dispatch gw (fst iw) (snd iw)) of Inr p \<Rightarrow> None
                       | Inl e \<Rightarrow> Some (error_message e))\<rparr>]"
  by (cases st; cases iw)
     (simp add: process_item_def dispatch_succeeds_def Let_def split: prod.splits sum.splits)

lemma process_item_calls:
  "snd (snd (process_item gw now iw st)) = snd (snd st) @ snd (dispatch gw (fst iw) (snd iw))"
  by (cases st; cases iw)
     (simp add: process_item_def Let_def split: prod.splits sum.splits)

lemma completed_count:
  "length (filter (\<lambda>r. res_status r = ''completed'') (fst (snd (process_items gw now xs st)))) =
   length (filter (\<lambda>r. res_status r = ''completed'') (fst (snd st))) +
   length (filter (dispatch_succeeds gw) xs)"
  by (induction xs arbitrary: st) (simp_all add: process_item_results)

lemma failed_count:
  "length (filter (\<lambda>r. res_status r = ''failed'') (fst (snd (process_items gw now xs st)))) =
   length (filter (\<lambda>r. res_status r = ''failed'') (fst (snd st))) +
   length (filter (\<lambda>iw. \<not> dispatch_succeeds gw iw) xs)"
  by (induction xs arbitrary: st) (simp_all add: process_item_results)

lemma final_status_process_items:
  assumes "xs \<noteq> []"
  shows "final_status (fst (snd (process_items gw now xs (s, [], [])))) =
         (if \<exists>iw\<in>set xs. dispatch_succeeds gw iw then Run_COMPLETED else Run_FAILED)"
proof -
  let ?rs = "fst (snd (process_items gw now xs (s, [], [])))"
  have c: "length (filter (\<lambda>r. res_status r = ''completed'') ?rs) =
           length (filter (dispatch_succeeds gw) xs)"
    by (simp add: completed_count)
  have f: "length (filter (\<lambda>r. res_status r = ''failed'') ?rs) =
           length (filter (\<lambda>iw. \<not> dispatch_succeeds gw iw) xs)"
    by (simp add: failed_count)
  show ?thesis
  proof (cases "\<exists>iw\<in>set xs. dispatch_succeeds gw iw")
    case True
    then have "filter (dispatch_succeeds gw) xs \<noteq> []" by (simp add: filter_empty_conv)
    then have "length (filter (dispatch_succeeds gw) xs) \<noteq> 0" by simp
    with True c show ?thesis by (simp add: final_status_def Let_def)
  next
    case False
    then have all: "\<forall>iw\<in>set xs. \<not> dispatch_succeeds gw iw" by simp
    then have "filter (dispatch_succeeds gw) xs = []" by (simp add: filter_empty_conv)
    moreover from all have "filter (\<lambda>iw. \<not> dispatch_succeeds gw iw) xs = xs"
      by (simp add: filter_id_conv)
    ultimately show ?thesis using False c f assms by (simp add: final_status_def Let_def)
  qed
qed

text \<open>What the loop body leaves in the row of the item it handles.\<close>

lemma find_item_process_item:
  "find_item k (fst (process_item gw now iw st)) =
     (if k = item_id (fst iw) then
        map_option (\<lambda>i. case fst (dispatch gw (fst iw) (snd iw)) of
            Inr payout \<Rightarrow> i\<lparr>item_status := Item_COMPLETED,
                        payoutId := set_opt (p_id payout) (payoutId i),
                        transactionHash := set_opt (p_transactionHash payout) (transactionHash i),
                        item_completedAt := Some now\<rparr>
          | Inl e \<Rightarrow> i\<lparr>item_status := Item_FAILED, errorMessage := Some (error_message e)\<rparr>)
          (find_item k (fst st))
      else find_item k (fst st))"
  by (cases st; cases iw; cases "fst (dispatch gw (fst iw) (snd iw))")
     (auto simp: process_item_def Let_def find_item_update_eq option.map_comp comp_def
           split: prod.splits sum.splits intro!: option.map_cong)

lemma find_item_process_items_other:
  "k \<notin> item_id ` fst ` set xs \<Longrightarrow>
   find_item k (fst (process_items gw now xs st)) = find_item k (fst st)"
  by (induction xs arbitrary: st) (auto simp: find_item_process_item)

lemma find_item_process_items:
  assumes "distinct (map (\<lambda>iw. item_id (fst iw)) xs)" "iw \<in> set xs"
  shows "find_item (item_id (fst iw)) (fst (process_items gw now xs st)) =
     map_option (\<lambda>i. case fst (dispatch gw (fst iw) (snd iw)) of
            Inr payout \<Rightarrow> i\<lparr>item_status := Item_COMPLETED,
                        payoutId := set_opt (p_id payout) (payoutId i),
                        transactionHash := set_opt (p_transactionHash payout) (transactionHash i),
                        item_completedAt := Some now\<rparr>
          | Inl e \<Rightarrow> i\<lparr>item_status := Item_FAILED, errorMessage := Some (error_message e)\<rparr>)
       (find_item (item_id (fst iw)) (fst st))"
  using assms
proof (induction xs arbitrary: st)
  case Nil
  then show ?case by simp
next
  case (Cons x xs)
  show ?case
  proof (cases "iw = x")
    case True
    from Cons.prems(1) have notin: "item_id (fst x) \<notin> item_id ` fst ` set xs"
      by (auto simp: image_iff)
    show ?thesis
      using find_item_process_items_other[OF notin, of gw now "process_item gw now x st"] True
      by (simp add: find_item_process_item)
  next
    case False
    with Cons.prems have in_xs: "iw \<in> set xs"
      and d: "distinct (map (\<lambda>iw. item_id (fst iw)) xs)"
      and ne: "item_id (fst iw) \<noteq> item_id (fst x)" by (auto simp: image_iff)
    from Cons.IH[OF d in_xs, of "process_item gw now x st"] ne
    show ?thesis by (simp add: find_item_process_item)
  qed
qed

lemma find_run_update_run:
  assumes "\<And>r. run_id (f r) = run_id r"
  shows "find_run rid (update_run rid f s) = map_option f (find_run rid s)"
proof -
  have "find_run rid s = Some r \<Longrightarrow> run_id r = rid" for r
    unfolding find_run_def by (auto simp: find_Some_iff)
  moreover have "find_run rid (update_run rid f s) =
      map_option (\<lambda>r. if run_id r = rid then f r else r) (find_run rid s)"
    unfolding find_run_def update_run_def using assms by (simp add: find_map_pres)
  ultimately show ?thesis by (cases "find_run rid s") auto
qed

lemma items_update_run [simp]: "payrollItems (update_run rid f s) = payrollItems s"
  by (simp add: update_run_def)

lemma find_item_update_run [simp]: "find_item k (update_run rid f s) = find_item k s"
  by (simp add: find_item_def)

lemma find_run_cong_runs: "payrollRuns s = payrollRuns s' \<Longrightarrow> find_run rid s = find_run rid s'"
  by (simp add: find_run_def)

lemma run_items_distinct:
  "distinct (map item_id (payrollItems s)) \<Longrightarrow>
   distinct (map (\<lambda>iw. item_id (fst iw)) (run_items rid s))"
  by (simp add: run_items_def comp_def distinct_map_filter)

lemma run_items_found:
  assumes "iw \<in> set (run_items rid s)"
  shows "\<exists>i0. find_item (item_id (fst iw)) s = Some i0"
proof -
  from assms have "fst iw \<in> set (payrollItems s)" by (auto simp: run_items_def)
  then have "find (\<lambda>i. item_id i = item_id (fst iw)) (payrollItems s) \<noteq> None"
    by (auto simp: find_None_iff)
  then show ?thesis by (auto simp: find_item_def)
qed

text \<open>The shape of a run of \<^verbatim>\<open>executePayrollRun\<close> on a pending run.\<close>

lemma execute_pending:
  assumes "find_run rid s = Some payrollRun" "run_status payrollRun = Run_PENDING"
    and "process_items gw now (run_items rid s)
           (update_run rid (\<lambda>r. r\<lparr>run_status := Run_PROCESSING\<rparr>) s, [], []) = (s2, results, cs)"
  shows "executePayrollRun gw now rid s =
     (Inr \<lparr>exec_payrollRunId = rid, exec_status = final_status results, exec_results = results,
           exec_summary = \<lparr>sum_total = length results,
              sum_completed = length (filter (\<lambda>r. res_status r = ''completed'') results),
              sum_failed = length (filter (\<lambda>r. res_status r = ''failed'') results)\<rparr>\<rparr>,
      update_run rid (\<lambda>r. r\<lparr>run_status := final_status results, run_completedAt := Some now\<rparr>) s2,
      cs)"
  using assms by (simp add: executePayrollRun_def)

lemma execute_pending_run:
  assumes "find_run rid s = Some payrollRun" "run_status payrollRun = Run_PENDING"
    and "process_items gw now (run_items rid s)
           (update_run rid (\<lambda>r. r\<lparr>run_status := Run_PROCESSING\<rparr>) s, [], []) = (s2, results, cs)"
  shows "find_run rid (fst (snd (executePayrollRun gw now rid s))) =
     Some (payrollRun\<lparr>run_status := final_status results, run_completedAt := Some now\<rparr>)"
proof -
  let ?s1 = "update_run rid (\<lambda>r. r\<lparr>run_status := Run_PROCESSING\<rparr>) s"
  have runs2: "payrollRuns s2 = payrollRuns ?s1"
    using runs_process_items[of gw now "run_items rid s" "(?s1, [], [])"] assms(3) by simp
  have "find_run rid s2 = find_run rid ?s1" by (rule find_run_cong_runs[OF runs2])
  also have "\<dots> = Some (payrollRun\<lparr>run_status := Run_PROCESSING\<rparr>)"
    using assms(1) by (simp add: find_run_update_run)
  finally show ?thesis
    unfolding execute_pending[OF assms] by (simp add: find_run_update_run)
qed

text \<open>
  C1. On a pending run with at least one item, \<^verbatim>\<open>executePayrollRun\<close> returns a
  result; the run ends COMPLETED when at least one item's dispatch succeeds and FAILED
  when every dispatch fails; in both cases its completion timestamp is set; and every
  item of the run ends COMPLETED when its own dispatch succeeded and FAILED when it
  failed, whatever happened to the other items.
\<close>

theorem execute_final_status:
  assumes run: "find_run rid s = Some payrollRun"
    and pending: "run_status payrollRun = Run_PENDING"
    and nonempty: "run_items rid s \<noteq> []"
    and keys: "distinct (map item_id (payrollItems s))"
    and ex: "executePayrollRun gw now rid s = (res, s', calls)"
  shows "(\<exists>r. res = Inr r \<and>
            exec_status r = (if \<exists>iw\<in>set (run_items rid s). dispatch_succeeds gw iw
                             then Run_COMPLETED else Run_FAILED))
       \<and> (\<exists>run'. find_run rid s' = Some run' \<and>
            run_status run' = (if \<exists>iw\<in>set (run_items rid s). dispatch_succeeds gw iw
                               then Run_COMPLETED else Run_FAILED) \<and>
            run_completedAt run' = Some now)
       \<and> (\<forall>iw\<in>set (run_items rid s). \<exists>i'. find_item (item_id (fst iw)) s' = Some i' \<and>
            item_status i' = (if dispatch_succeeds gw iw then Item_COMPLETED else Item_FAILED))"
proof -
  let ?s1 = "update_run rid (\<lambda>r. r\<lparr>run_status := Run_PROCESSING\<rparr>) s"
  let ?st = "process_items gw now (run_items rid s) (?s1, [], [])"
  let ?fin = "if \<exists>iw\<in>set (run_items rid s). dispatch_succeeds gw iw
              then Run_COMPLETED else Run_FAILED"
  obtain s2 results cs where st: "?st = (s2, results, cs)" by (cases ?st) auto
  have fin: "final_status results = ?fin"
    using final_status_process_items[OF nonempty, of gw now ?s1] st by simp
  note shape = execute_pending[OF run pending st]
  from ex shape have res: "\<exists>r. res = Inr r \<and> exec_status r = ?fin"
    and s': "s' = update_run rid
        (\<lambda>r. r\<lparr>run_status := final_status results, run_completedAt := Some now\<rparr>) s2"
    using fin by auto
  have "find_run rid s' =
      Some (payrollRun\<lparr>run_status := final_status results, run_completedAt := Some now\<rparr>)"
    using execute_pending_run[OF run pending st] ex by simp
  then have part2: "\<exists>run'. find_run rid s' = Some run' \<and> run_status run' = ?fin \<and>
      run_completedAt run' = Some now" using fin by simp
  have part3: "\<exists>i'. find_item (item_id (fst iw)) s' = Some i' \<and>
      item_status i' = (if dispatch_succeeds gw iw then Item_COMPLETED else Item_FAILED)"
    if "iw \<in> set (run_items rid s)" for iw
  proof -
    from run_items_found[OF that] obtain i0 where i0: "find_item (item_id (fst iw)) s = Some i0" ..
    have "find_item (item_id (fst iw)) s2 =
        map_option (\<lambda>i. case fst (dispatch gw (fst iw) (snd iw)) of
            Inr payout \<Rightarrow> i\<lparr>item_status := Item_COMPLETED,
                        payoutId := set_opt (p_id payout) (payoutId i),
                        transactionHash := set_opt (p_transactionHash payout) (transactionHash i),
                        item_completedAt := Some now\<rparr>
          | Inl e \<Rightarrow> i\<lparr>item_status := Item_FAILED, errorMessage := Some (error_message e)\<rparr>)
          (find_item (item_id (fst iw)) s)"
      using find_item_process_items[OF run_items_distinct[OF keys] that, of gw now "(?s1, [], [])"] st
      by simp
    with i0 show ?thesis unfolding s'
      by (cases "fst (dispatch gw (fst iw) (snd iw))") (auto simp: dispatch_succeeds_def)
  qed
  from res part2 part3 show ?thesis by blast
qed

theorem execute_final_status_witness:
  "find_run 10 sample_store = Some sample_run \<and> run_status sample_run = Run_PENDING
   \<and> run_items 10 sample_store \<noteq> []
   \<and> distinct (map item_id (payrollItems sample_store))
   \<and> map_option run_status
        (find_run 10 (fst (snd (executePayrollRun sample_gateway 99 10 sample_store)))) =
      Some Run_COMPLETED
   \<and> map_option run_completedAt
        (find_run 10 (fst (snd (executePayrollRun sample_gateway 99 10 sample_store)))) =
      Some (Some 99)
   \<and> map item_status
        (payrollItems (fst (snd (executePayrollRun sample_gateway 99 10 sample_store)))) =
      [Item_COMPLETED, Item_FAILED, Item_FAILED]
   \<and> map_option run_status
        (find_run 10 (fst (snd (executePayrollRun failing_gateway 99 10 sample_store)))) =
      Some Run_FAILED"
proof -
  have h1: "find_run 10 sample_store = Some sample_run" by code_simp
  have h2: "run_status sample_run = Run_PENDING" by code_simp
  have h3: "run_items 10 sample_store \<noteq> []" by code_simp
  have h4: "distinct (map item_id (payrollItems sample_store))" by code_simp
  have ok: "\<exists>iw\<in>set (run_items 10 sample_store). dispatch_succeeds sample_gateway iw"
    by code_simp
  have bad: "\<not> (\<exists>iw\<in>set (run_items 10 sample_store). dispatch_succeeds failing_gateway iw)"
    by code_simp
  have items: "map item_status
        (payrollItems (fst (snd (executePayrollRun sample_gateway 99 10 sample_store)))) =
      [Item_COMPLETED, Item_FAILED, Item_FAILED]" by code_simp
  obtain res s' calls where ex: "executePayrollRun sample_gateway 99 10 sample_store = (res, s', calls)"
    by (cases "executePayrollRun sample_gateway 99 10 sample_store") auto
  obtain res2 s2 calls2 where ex2: "executePayrollRun failing_gateway 99 10 sample_store = (res2, s2, calls2)"
    by (cases "executePayrollRun failing_gateway 99 10 sample_store") auto
  from execute_final_status[OF h1 h2 h3 h4 ex] ok
  have a: "map_option run_status (find_run 10 s') = Some Run_COMPLETED"
    and b: "map_option run_completedAt (find_run 10 s') = Some (Some 99)" by auto
  from execute_final_status[OF h1 h2 h3 h4 ex2] bad
  have c: "map_option run_status (find_run 10 s2) = Some Run_FAILED" by auto
  from h1 h2 h3 h4 a b c items ex ex2 show ?thesis by simp
qed

lemma update_run_absent:
  assumes "find_run rid s = None"
  shows "update_run rid f s = s"
proof -
  from assms have "\<forall>r\<in>set (payrollRuns s). run_id r \<noteq> rid"
    by (auto simp: find_run_def find_None_iff)
  then have "map (\<lambda>r. if run_id r = rid then f r else r) (payrollRuns s) = payrollRuns s"
    by (induction "payrollRuns s") (auto simp: map_idI)
  then show ?thesis by (simp add: update_run_def)
qed

lemma final_status_not_pending: "final_status results \<noteq> Run_PENDING"
  by (simp add: final_status_def Let_def)

lemma execute_not_pending:
  assumes "find_run rid s = Some payrollRun" "run_status payrollRun \<noteq> Run_PENDING"
  shows "executePayrollRun gw now rid s =
           (Inl run_not_pending, update_run rid (\<lambda>r. r\<lparr>run_status := Run_FAILED\<rparr>) s, [])"
  using assms by (simp add: executePayrollRun_def)

text \<open>
  C2. \<^verbatim>\<open>executePayrollRun\<close> throws the not-found error (status 404) when no run has
  the identifier, and a different error (status 400, ``not in pending status'') when
  the run exists and is not PENDING; in that case no item row changes and no payment
  call is made. In particular a second call after a first one that returned is
  refused in this way. Both errors carry the code string PAYROLL_RUN_NOT_FOUND; they
  differ in message and status.
\<close>

theorem execute_preconditions:
  "(find_run rid s = None \<longrightarrow> executePayrollRun gw now rid s = (Inl run_not_found, s, []))
   \<and> (\<forall>payrollRun. find_run rid s = Some payrollRun \<and> run_status payrollRun \<noteq> Run_PENDING \<longrightarrow>
        (\<exists>s'. executePayrollRun gw now rid s = (Inl run_not_pending, s', []) \<and>
              payrollItems s' = payrollItems s))
   \<and> run_not_pending \<noteq> run_not_found
   \<and> err_statusCode run_not_found = 404 \<and> err_statusCode run_not_pending = 400
   \<and> (\<forall>r s1 c1. executePayrollRun gw now rid s = (Inr r, s1, c1) \<longrightarrow>
        (\<exists>s2. executePayrollRun gw2 now2 rid s1 = (Inl run_not_pending, s2, []) \<and>
              payrollItems s2 = payrollItems s1))"
proof (intro conjI allI impI)
  assume "find_run rid s = None"
  then show "executePayrollRun gw now rid s = (Inl run_not_found, s, [])"
    by (simp add: executePayrollRun_def update_run_absent)
next
  fix payrollRun
  assume "find_run rid s = Some payrollRun \<and> run_status payrollRun \<noteq> Run_PENDING"
  then show "\<exists>s'. executePayrollRun gw now rid s = (Inl run_not_pending, s', []) \<and>
              payrollItems s' = payrollItems s"
    by (simp add: execute_not_pending)
next
  show "run_not_pending \<noteq> run_not_found"
    by (simp add: run_not_pending_def run_not_found_def)
next
  show "err_statusCode run_not_found = 404" by (simp add: run_not_found_def)
next
  show "err_statusCode run_not_pending = 400" by (simp add: run_not_pending_def)
next
  fix r s1 c1
  assume first: "executePayrollRun gw now rid s = (Inr r, s1, c1)"
  then obtain payrollRun where run: "find_run rid s = Some payrollRun"
    and pending: "run_status payrollRun = Run_PENDING"
    by (auto simp: executePayrollRun_def split: option.splits if_splits)
  let ?st = "process_items gw now (run_items rid s)
               (update_run rid (\<lambda>r. r\<lparr>run_status := Run_PROCESSING\<rparr>) s, [], [])"
  obtain s2 results cs where st: "?st = (s2, results, cs)" by (cases ?st) auto
  from execute_pending_run[OF run pending st] first
  have "find_run rid s1 =
      Some (payrollRun\<lparr>run_status := final_status results, run_completedAt := Some now\<rparr>)"
    by simp
  moreover have "run_status (payrollRun\<lparr>run_status := final_status results,
      run_completedAt := Some now\<rparr>) \<noteq> Run_PENDING"
    by (simp add: final_status_not_pending)
  ultimately show "\<exists>s2. executePayrollRun gw2 now2 rid s1 = (Inl run_not_pending, s2, []) \<and>
              payrollItems s2 = payrollItems s1"
    by (simp add: execute_not_pending)
qed

theorem execute_preconditions_witness:
  "find_run 77 sample_store = None
   \<and> executePayrollRun sample_gateway 99 77 sample_store = (Inl run_not_found, sample_store, [])
   \<and> isl (fst (executePayrollRun sample_gateway 99 10 sample_store)) = False
   \<and> fst (executePayrollRun failing_gateway 100 10
             (fst (snd (executePayrollRun sample_gateway 99 10 sample_store)))) =
       Inl run_not_pending
   \<and> snd (snd (executePayrollRun failing_gateway 100 10
             (fst (snd (executePayrollRun sample_gateway 99 10 sample_store))))) = []
   \<and> payrollItems (fst (snd (executePayrollRun failing_gateway 100 10
             (fst (snd (executePayrollRun sample_gateway 99 10 sample_store)))))) =
       payrollItems (fst (snd (executePayrollRun sample_gateway 99 10 sample_store)))"
proof -
  have none: "find_run 77 sample_store = None" by code_simp
  have ok: "isl (fst (executePayrollRun sample_gateway 99 10 sample_store)) = False" by code_simp
  then obtain r s1 c1 where
    first: "executePayrollRun sample_gateway 99 10 sample_store = (Inr r, s1, c1)"
    by (cases "executePayrollRun sample_gateway 99 10 sample_store"; 
        cases "fst (executePayrollRun sample_gateway 99 10 sample_store)") auto
  note T = execute_preconditions[of 77 sample_store sample_gateway 99 failing_gateway 100]
  note U = execute_preconditions[of 10 sample_store sample_gateway 99 failing_gateway 100]
  from T none have a: "executePayrollRun sample_gateway 99 77 sample_store =
      (Inl run_not_found, sample_store, [])" by blast
  from U first obtain s2 where
    "executePayrollRun failing_gateway 100 10 s1 = (Inl run_not_pending, s2, [])"
    "payrollItems s2 = payrollItems s1" by blast
  with none a ok first show ?thesis by simp
qed

lemma process_items_results_ids:
  "map res_payrollItemId (fst (snd (process_items gw now xs st))) =
   map res_payrollItemId (fst (snd st)) @ map (\<lambda>iw. item_id (fst iw)) xs"
  by (induction xs arbitrary: st) (simp_all add: process_item_results)

lemma process_items_calls:
  "snd (snd (process_items gw now xs st)) =
   snd (snd st) @ concat (map (\<lambda>iw. snd (dispatch gw (fst iw) (snd iw))) xs)"
  by (induction xs arbitrary: st) (simp_all add: process_item_calls)

text \<open>
  C6. In \<^verbatim>\<open>executePayrollRun\<close> on a pending run the payment calls made are, item by
  item in order, those of the one path chosen for the item: for a worker with a wallet
  identifier the gasless call alone; else for a worker with a recipient identifier the
  custodial call alone; else no call, and the item ends FAILED with the message that
  no wallet or recipient is configured. Every item of the run gets a result, so such a
  failure does not stop the loop.
\<close>

theorem execute_dispatch_paths:
  assumes run: "find_run rid s = Some payrollRun"
    and pending: "run_status payrollRun = Run_PENDING"
    and keys: "distinct (map item_id (payrollItems s))"
    and ex: "executePayrollRun gw now rid s = (res, s', calls)"
  shows "calls = concat (map (\<lambda>iw. snd (dispatch gw (fst iw) (snd iw))) (run_items rid s))
     \<and> (\<exists>r. res = Inr r \<and>
           map res_payrollItemId (exec_results r) = map (\<lambda>iw. item_id (fst iw)) (run_items rid s))
     \<and> (\<forall>iw\<in>set (run_items rid s). \<forall>worker. snd iw = Some worker \<longrightarrow>
           (truthy (walletId worker) \<longrightarrow>
              dispatch gw (fst iw) (snd iw) =
                (executeGaslessPayment gw (fst iw) worker, [GaslessCall (item_id (fst iw))]))
         \<and> (\<not> truthy (walletId worker) \<and> truthy (recipientId worker) \<longrightarrow>
              dispatch gw (fst iw) (snd iw) =
                (executeCirclePayout gw (fst iw) worker, [CustodialCall (item_id (fst iw))]))
         \<and> (\<not> truthy (walletId worker) \<and> \<not> truthy (recipientId worker) \<longrightarrow>
              dispatch gw (fst iw) (snd iw) =
                (Inl (ErrorObj ''Worker has no wallet or recipient configured''), []) \<and>
              (\<exists>i'. find_item (item_id (fst iw)) s' = Some i' \<and>
                    item_status i' = Item_FAILED \<and>
                    errorMessage i' = Some ''Worker has no wallet or recipient configured'')))"
proof -
  let ?s1 = "update_run rid (\<lambda>r. r\<lparr>run_status := Run_PROCESSING\<rparr>) s"
  let ?st = "process_items gw now (run_items rid s) (?s1, [], [])"
  obtain s2 results cs where st: "?st = (s2, results, cs)" by (cases ?st) auto
  note shape = execute_pending[OF run pending st]
  from ex shape have calls: "calls = cs" and s': "s' = update_run rid
        (\<lambda>r. r\<lparr>run_status := final_status results, run_completedAt := Some now\<rparr>) s2"
    and res: "\<exists>r. res = Inr r \<and> exec_results r = results" by auto
  have part1: "calls = concat (map (\<lambda>iw. snd (dispatch gw (fst iw) (snd iw))) (run_items rid s))"
    using process_items_calls[of gw now "run_items rid s" "(?s1, [], [])"] st calls by simp
  have ids: "map res_payrollItemId results = map (\<lambda>iw. item_id (fst iw)) (run_items rid s)"
    using process_items_results_ids[of gw now "run_items rid s" "(?s1, [], [])"] st by simp
  have part3: "(truthy (walletId worker) \<longrightarrow>
              dispatch gw (fst iw) (snd iw) =
                (executeGaslessPayment gw (fst iw) worker, [GaslessCall (item_id (fst iw))]))
         \<and> (\<not> truthy (walletId worker) \<and> truthy (recipientId worker) \<longrightarrow>
              dispatch gw (fst iw) (snd iw) =
                (executeCirclePayout gw (fst iw) worker, [CustodialCall (item_id (fst iw))]))
         \<and> (\<not> truthy (walletId worker) \<and> \<not> truthy (recipientId worker) \<longrightarrow>
              dispatch gw (fst iw) (snd iw) =
                (Inl (ErrorObj ''Worker has no wallet or recipient configured''), []) \<and>
              (\<exists>i'. find_item (item_id (fst iw)) s' = Some i' \<and>
                    item_status i' = Item_FAILED \<and>
                    errorMessage i' = Some ''Worker has no wallet or recipient configured''))"
    if mem: "iw \<in> set (run_items rid s)" and w: "snd iw = Some worker" for iw worker
  proof (intro conjI impI)
    assume "truthy (walletId worker)"
    then show "dispatch gw (fst iw) (snd iw) =
        (executeGaslessPayment gw (fst iw) worker, [GaslessCall (item_id (fst iw))])"
      using w by (simp add: dispatch_def)
  next
    assume "\<not> truthy (walletId worker) \<and> truthy (recipientId worker)"
    then show "dispatch gw (fst iw) (snd iw) =
        (executeCirclePayout gw (fst iw) worker, [CustodialCall (item_id (fst iw))])"
      using w by (simp add: dispatch_def)
  next
    assume none: "\<not> truthy (walletId worker) \<and> \<not> truthy (recipientId worker)"
    then show d: "dispatch gw (fst iw) (snd iw) =
        (Inl (ErrorObj ''Worker has no wallet or recipient configured''), [])"
      using w by (simp add: dispatch_def)
    from run_items_found[OF mem] obtain i0 where i0: "find_item (item_id (fst iw)) s = Some i0" ..
    from find_item_process_items[OF run_items_distinct[OF keys] mem, of gw now "(?s1, [], [])"] st d i0
    show "\<exists>i'. find_item (item_id (fst iw)) s' = Some i' \<and> item_status i' = Item_FAILED \<and>
                errorMessage i' = Some ''Worker has no wallet or recipient configured''"
      unfolding s' by (simp add: error_message_def)
  qed
  from part1 res ids part3 show ?thesis by blast
qed

theorem execute_dispatch_paths_witness:
  "find_run 10 sample_store = Some sample_run \<and> run_status sample_run = Run_PENDING
   \<and> distinct (map item_id (payrollItems sample_store))
   \<and> snd (snd (executePayrollRun sample_gateway 99 10 sample_store)) =
       [GaslessCall 11, CustodialCall 12]
   \<and> map (\<lambda>i. (item_status i, errorMessage i))
        (payrollItems (fst (snd (executePayrollRun sample_gateway 99 10 sample_store)))) =
       [(Item_COMPLETED, None), (Item_FAILED, Some ''payout rejected''),
        (Item_FAILED, Some ''Worker has no wallet or recipient configured'')]"
proof -
  have h1: "find_run 10 sample_store = Some sample_run" by code_simp
  have h2: "run_status sample_run = Run_PENDING" by code_simp
  have h3: "distinct (map item_id (payrollItems sample_store))" by code_simp
  obtain res s' calls where
    ex: "executePayrollRun sample_gateway 99 10 sample_store = (res, s', calls)"
    by (cases "executePayrollRun sample_gateway 99 10 sample_store") auto
  have paths: "concat (map (\<lambda>iw. snd (dispatch sample_gateway (fst iw) (snd iw)))
      (run_items 10 sample_store)) = [GaslessCall 11, CustodialCall 12]" by code_simp
  have items: "map (\<lambda>i. (item_status i, errorMessage i))
        (payrollItems (fst (snd (executePayrollRun sample_gateway 99 10 sample_store)))) =
       [(Item_COMPLETED, None), (Item_FAILED, Some ''payout rejected''),
        (Item_FAILED, Some ''Worker has no wallet or recipient configured'')]" by code_simp
  from execute_dispatch_paths[OF h1 h2 h3 ex] paths
  have "calls = [GaslessCall 11, CustodialCall 12]" by simp
  with h1 h2 h3 items ex show ?thesis by simp
qed

lemma fixed6_zero: "fixed6 0 = ''0.000000''"
  by code_simp

lemma floor_half: "\<lfloor>(1::rat) / 2\<rfloor> = 0"
  by (rule floor_unique) simp_all

lemma total_empty: "calculateTotalAmount rt [] = ''0.000000''"
  by (simp add: calculateTotalAmount_def toFixed6_def fixed6_zero floor_half)

lemma create_empty:
  "createPayrollRun rt pv admin [] s =
     (Inr \<lparr>created_payrollRun =
             \<lparr>run_id = nextId s, adminId = admin, run_status = Run_PENDING,
              totalAmount = ''0.000000'', totalWorkers = 0, run_completedAt = None\<rparr>,
           created_payrollItems = []\<rparr>,
      update_run (nextId s) (\<lambda>r. r\<lparr>run_status := Run_PENDING\<rparr>)
        (s\<lparr>payrollRuns := payrollRuns s @
             [\<lparr>run_id = nextId s, adminId = admin, run_status = Run_DRAFT,
               totalAmount = ''0.000000'', totalWorkers = 0, run_completedAt = None\<rparr>],
           nextId := Suc (nextId s)\<rparr>)
        \<lparr>auditLogs := auditLogs s @
           [\<lparr>eventType = ''PAYROLL_RUN_CREATED'', entityType = ''PayrollRun'',
             entityId = nextId s, audit_workerId = None,
             audit_payrollRunId = Some (nextId s), audit_oldStatus = None,
             audit_newStatus = None\<rparr>]\<rparr>,
      [TxBegin, TxCommit])"
  by (simp add: createPayrollRun_def total_empty Let_def update_run_def)

lemma find_append_absent:
  "\<forall>x\<in>set xs. \<not> P x \<Longrightarrow> find P (xs @ ys) = find P ys"
  by (induction xs) auto

text \<open>
  C10. The request schema accepts an empty list of workers; \<^verbatim>\<open>POST /payroll/runs\<close>
  then answers 201 with a pending run of zero workers, total 0.000000 and no items;
  and executing that run makes no payment call and ends with the run COMPLETED, with
  an empty result list. (The store is one where the next identifier is not yet used by
  a run or an item.)
\<close>

theorem empty_run_completes:
  assumes fresh_runs: "\<forall>r\<in>set (payrollRuns s). run_id r \<noteq> nextId s"
    and fresh_items: "\<forall>i\<in>set (payrollItems s). payrollRunId i \<noteq> nextId s"
    and post: "post_runs is_email rt pv hdr [] s = (reply, s1)"
    and ex: "executePayrollRun gw now (nextId s) s1 = (res, s2, calls)"
  shows "CreatePayrollRunRequestSchema is_email []
     \<and> reply_status reply = 201
     \<and> (\<exists>result. reply_data reply = Some result \<and> created_payrollItems result = [] \<and>
           run_id (created_payrollRun result) = nextId s \<and>
           totalWorkers (created_payrollRun result) = 0 \<and>
           totalAmount (created_payrollRun result) = ''0.000000'' \<and>
           run_status (created_payrollRun result) = Run_PENDING)
     \<and> run_items (nextId s) s1 = []
     \<and> (\<exists>r. res = Inr r \<and> exec_status r = Run_COMPLETED \<and> exec_results r = [])
     \<and> calls = []
     \<and> map_option run_status (find_run (nextId s) s2) = Some Run_COMPLETED"
proof -
  have schema: "CreatePayrollRunRequestSchema is_email []"
    by (simp add: CreatePayrollRunRequestSchema_def)
  let ?run = "\<lparr>run_id = nextId s, adminId = (if truthy hdr then the hdr else ''admin-1''),
      run_status = Run_PENDING, totalAmount = ''0.000000'', totalWorkers = 0,
      run_completedAt = None\<rparr>"
  from post schema have reply: "reply = \<lparr>reply_status = 201, reply_error = None,
      reply_data = Some \<lparr>created_payrollRun = ?run, created_payrollItems = []\<rparr>\<rparr>"
    and items1: "payrollItems s1 = payrollItems s"
    and runs1: "payrollRuns s1 = map (\<lambda>r. if run_id r = nextId s then r\<lparr>run_status := Run_PENDING\<rparr> else r)
        (payrollRuns s @ [\<lparr>run_id = nextId s, adminId = (if truthy hdr then the hdr else ''admin-1''),
           run_status = Run_DRAFT, totalAmount = ''0.000000'', totalWorkers = 0,
           run_completedAt = None\<rparr>])"
    by (auto simp: post_runs_def create_empty Let_def update_run_def)
  have no_items: "run_items (nextId s) s1 = []"
    using fresh_items by (simp add: run_items_def items1 filter_empty_conv)
  have found: "find_run (nextId s) s1 = Some ?run"
  proof -
    have "map (\<lambda>r. if run_id r = nextId s then r\<lparr>run_status := Run_PENDING\<rparr> else r) (payrollRuns s)
          = payrollRuns s"
      using fresh_runs by (simp add: map_idI)
    then show ?thesis
      using fresh_runs by (simp add: find_run_def runs1 find_append_absent)
  qed
  have pend: "run_status ?run = Run_PENDING" by simp
  have st: "process_items gw now (run_items (nextId s) s1)
      (update_run (nextId s) (\<lambda>r. r\<lparr>run_status := Run_PROCESSING\<rparr>) s1, [], []) =
      (update_run (nextId s) (\<lambda>r. r\<lparr>run_status := Run_PROCESSING\<rparr>) s1, [], [])"
    by (simp add: no_items)
  from execute_pending[OF found pend st] ex
  have res: "\<exists>r. res = Inr r \<and> exec_status r = Run_COMPLETED \<and> exec_results r = []"
    and calls: "calls = []"
    by (auto simp: final_status_def)
  from execute_pending_run[OF found pend st] ex
  have fin: "map_option run_status (find_run (nextId s) s2) = Some Run_COMPLETED"
    by (simp add: final_status_def)
  from schema reply no_items res calls fin show ?thesis by simp
qed

theorem empty_run_completes_witness:
  "payrollRuns empty_store = [] \<and> payrollItems empty_store = [] \<and> nextId empty_store = 0
   \<and> reply_status (fst (post_runs sample_is_email sample_builtins failing_provisioner None []
          empty_store)) = 201
   \<and> map_option (\<lambda>r. (totalWorkers (created_payrollRun r), created_payrollItems r))
        (reply_data (fst (post_runs sample_is_email sample_builtins failing_provisioner None []
          empty_store))) = Some (0, [])
   \<and> fst (executePayrollRun sample_gateway 99 0
          (snd (post_runs sample_is_email sample_builtins failing_provisioner None [] empty_store))) =
       Inr \<lparr>exec_payrollRunId = 0, exec_status = Run_COMPLETED, exec_results = [],
            exec_summary = \<lparr>sum_total = 0, sum_completed = 0, sum_failed = 0\<rparr>\<rparr>
   \<and> map_option run_status (find_run 0 (fst (snd (executePayrollRun sample_gateway 99 0
          (snd (post_runs sample_is_email sample_builtins failing_provisioner None [] empty_store)))))) =
       Some Run_COMPLETED"
proof -
  have e1: "payrollRuns empty_store = []" and e2: "payrollItems empty_store = []"
    and e3: "nextId empty_store = 0" by (simp_all add: empty_store_def)
  have h1: "\<forall>r\<in>set (payrollRuns empty_store). run_id r \<noteq> nextId empty_store"
    and h2: "\<forall>i\<in>set (payrollItems empty_store). payrollRunId i \<noteq> nextId empty_store"
    by (simp_all add: e1 e2)
  obtain reply s1 where post: "post_runs sample_is_email sample_builtins failing_provisioner None []
      empty_store = (reply, s1)"
    by (cases "post_runs sample_is_email sample_builtins failing_provisioner None [] empty_store")
  obtain res s2 calls where ex: "executePayrollRun sample_gateway 99 (nextId empty_store) s1 =
      (res, s2, calls)"
    by (cases "executePayrollRun sample_gateway 99 (nextId empty_store) s1") auto
  have full: "fst (executePayrollRun sample_gateway 99 0
          (snd (post_runs sample_is_email sample_builtins failing_provisioner None [] empty_store))) =
       Inr \<lparr>exec_payrollRunId = 0, exec_status = Run_COMPLETED, exec_results = [],
            exec_summary = \<lparr>sum_total = 0, sum_completed = 0, sum_failed = 0\<rparr>\<rparr>"
    by code_simp
  from empty_run_completes[OF h1 h2 post ex] e1 e2 e3 post ex full
  show ?thesis by auto
qed

section \<open>Properties of status updates\<close>

lemma map_status_not_pending: "map_status status \<noteq> Item_PENDING"
  by (simp add: map_status_def Let_def)

lemma map_status_terminal: "terminal (map_status status) = reports_terminal status"
  by (simp add: map_status_def reports_terminal_def terminal_def Let_def)

lemma map_status_processing: "(map_status status = Item_PROCESSING) = (\<not> reports_terminal status)"
  by (simp add: map_status_def reports_terminal_def Let_def)

text \<open>The item rows after one update: the rows of the matched identifier are overwritten.\<close>

lemma items_updatePayoutStatus:
  "payrollItems (updatePayoutStatus now pid status txh s) =
     (case find_by_payout pid s of
        None \<Rightarrow> payrollItems s
      | Some it \<Rightarrow>
          map (\<lambda>i. if item_id i = item_id it
                   then i\<lparr>item_status := map_status status,
                          transactionHash := set_opt txh (transactionHash i),
                          item_completedAt :=
                            (if map_status status = Item_COMPLETED then Some now
                             else item_completedAt i)\<rparr>
                   else i) (payrollItems s))"
  by (simp add: updatePayoutStatus_def update_item_def Let_def split: option.splits)

lemma list_all2_map_same: "list_all2 R xs (map g xs) = (\<forall>x\<in>set xs. R x (g x))"
  by (simp add: list_all2_map2 list_all2_same)

lemma update_never_pending:
  "list_all2 (\<lambda>i i'. item_id i' = item_id i \<and>
                     (item_status i' = Item_PENDING \<longrightarrow> item_status i = Item_PENDING))
     (payrollItems s) (payrollItems (updatePayoutStatus now pid status txh s))"
  by (cases "find_by_payout pid s")
     (simp_all add: items_updatePayoutStatus list_all2_map_same list_all2_same
        map_status_not_pending)

lemma update_keeps_terminal:
  assumes "reports_terminal status"
  shows "list_all2 (\<lambda>i i'. terminal (item_status i) \<longrightarrow> terminal (item_status i'))
     (payrollItems s) (payrollItems (updatePayoutStatus now pid status txh s))"
  using assms
  by (cases "find_by_payout pid s")
     (simp_all add: items_updatePayoutStatus list_all2_map_same list_all2_same
        map_status_terminal)

lemma updates_never_pending:
  "list_all2 (\<lambda>i i'. item_id i' = item_id i \<and>
                     (item_status i' = Item_PENDING \<longrightarrow> item_status i = Item_PENDING))
     (payrollItems s) (payrollItems (apply_updates now us s))"
proof (induction us arbitrary: s)
  case Nil
  show ?case by (simp add: apply_updates_def list_all2_same)
next
  case (Cons u us)
  have step: "apply_updates now (u # us) s =
      apply_updates now us
        (updatePayoutStatus now (upd_payoutId u) (upd_status u) (upd_transactionHash u) s)"
    by (simp add: apply_updates_def)
  show ?case unfolding step
    by (rule list_all2_trans[OF _ update_never_pending Cons.IH]) auto
qed

lemma updates_keep_terminal:
  assumes "\<forall>u\<in>set us. reports_terminal (upd_status u)"
  shows "list_all2 (\<lambda>i i'. terminal (item_status i) \<longrightarrow> terminal (item_status i'))
     (payrollItems s) (payrollItems (apply_updates now us s))"
  using assms
proof (induction us arbitrary: s)
  case Nil
  show ?case by (simp add: apply_updates_def list_all2_same)
next
  case (Cons u us)
  have step: "apply_updates now (u # us) s =
      apply_updates now us
        (updatePayoutStatus now (upd_payoutId u) (upd_status u) (upd_transactionHash u) s)"
    by (simp add: apply_updates_def)
  from Cons.prems have u: "reports_terminal (upd_status u)"
    and rest: "\<forall>u\<in>set us. reports_terminal (upd_status u)" by simp_all
  show ?case unfolding step
    by (rule list_all2_trans[OF _ update_keeps_terminal[OF u] Cons.IH[OF rest]]) auto
qed

lemma matched_item_overwritten:
  assumes "find_by_payout pid s = Some it"
  shows "map_option item_status (find_item (item_id it) (updatePayoutStatus now pid status txh s)) =
         Some (map_status status)"
proof -
  from assms have "it \<in> set (payrollItems s)"
    by (auto simp: find_by_payout_def find_Some_iff)
  then have "find_item (item_id it) s \<noteq> None"
    by (auto simp: find_item_def find_None_iff)
  then obtain i0 where i0: "find_item (item_id it) s = Some i0" by auto
  have "find_item (item_id it) (updatePayoutStatus now pid status txh s) =
        find_item (item_id it) (update_item (item_id it)
           (\<lambda>i. i\<lparr>item_status := map_status status,
                   transactionHash := set_opt txh (transactionHash i),
                   item_completedAt :=
                     (if map_status status = Item_COMPLETED then Some now else item_completedAt i)\<rparr>) s)"
    using assms by (simp add: updatePayoutStatus_def Let_def find_item_def)
  with i0 show ?thesis by (simp add: find_item_update_eq)
qed

lemma post_circle_items:
  "payrollItems (snd (post_circle hmac secret stringify now signature body s)) = payrollItems s
   \<or> (\<exists>pid status txh. reports_terminal status \<and>
         snd (post_circle hmac secret stringify now signature body s) =
           updatePayoutStatus now pid status txh s)"
proof -
  have c: "reports_terminal ''completed''" and f: "reports_terminal ''failed''"
    by (simp_all add: reports_terminal_def toLowerCase_def lower_char_def)
  show ?thesis
    using c f
    by (auto simp: post_circle_def handleTransferCompleted_def handleTransferFailed_def
        prisma_updateMany_def split: option.splits)
qed

text \<open>
  C4, as the code has it. \<^verbatim>\<open>updatePayoutStatus\<close> overwrites the status of the
  matched item with the status mapped from the report, whatever the current status
  is: COMPLETED for complete or completed, FAILED for failed or error, PROCESSING for
  anything else. Hence, over every sequence of updates, no item is ever moved to
  PENDING; an item that is COMPLETED or FAILED stays in a terminal status provided
  every report of the sequence is one of the four terminal words, as every report the
  Circle webhook endpoint passes on is; and a report that is not one of them moves the
  matched item to PROCESSING.
\<close>

theorem payout_status_updates:
  "list_all2 (\<lambda>i i'. item_id i' = item_id i \<and>
                     (item_status i' = Item_PENDING \<longrightarrow> item_status i = Item_PENDING))
     (payrollItems s) (payrollItems (apply_updates now us s))
   \<and> ((\<forall>u\<in>set us. reports_terminal (upd_status u)) \<longrightarrow>
        list_all2 (\<lambda>i i'. terminal (item_status i) \<longrightarrow> terminal (item_status i'))
          (payrollItems s) (payrollItems (apply_updates now us s)))
   \<and> list_all2 (\<lambda>i i'. terminal (item_status i) \<longrightarrow> terminal (item_status i'))
        (payrollItems s)
        (payrollItems (snd (post_circle hmac secret stringify now signature body s)))
   \<and> (\<forall>it. find_by_payout pid s = Some it \<longrightarrow>
        map_option item_status
          (find_item (item_id it) (updatePayoutStatus now pid status txh s)) =
        Some (map_status status))
   \<and> (map_status status = Item_PROCESSING) = (\<not> reports_terminal status)"
proof (intro conjI impI allI)
  show "list_all2 (\<lambda>i i'. item_id i' = item_id i \<and>
                     (item_status i' = Item_PENDING \<longrightarrow> item_status i = Item_PENDING))
     (payrollItems s) (payrollItems (apply_updates now us s))"
    by (rule updates_never_pending)
next
  assume "\<forall>u\<in>set us. reports_terminal (upd_status u)"
  then show "list_all2 (\<lambda>i i'. terminal (item_status i) \<longrightarrow> terminal (item_status i'))
          (payrollItems s) (payrollItems (apply_updates now us s))"
    by (rule updates_keep_terminal)
next
  show "list_all2 (\<lambda>i i'. terminal (item_status i) \<longrightarrow> terminal (item_status i'))
        (payrollItems s)
        (payrollItems (snd (post_circle hmac secret stringify now signature body s)))"
    using post_circle_items[of hmac secret stringify now signature body s]
    by (auto simp: list_all2_same intro: update_keeps_terminal)
next
  fix it assume "find_by_payout pid s = Some it"
  then show "map_option item_status
          (find_item (item_id it) (updatePayoutStatus now pid status txh s)) =
        Some (map_status status)"
    by (rule matched_item_overwritten)
next
  show "(map_status status = Item_PROCESSING) = (\<not> reports_terminal status)"
    by (rule map_status_processing)
qed

theorem payout_status_updates_witness:
  "list_all reports_terminal [''failed'', ''COMPLETE'']
   \<and> map item_status (payrollItems paid_store) = [Item_COMPLETED]
   \<and> map item_status
       (payrollItems (apply_updates 60
          [\<lparr>upd_payoutId = Some ''po-1'', upd_status = ''failed'', upd_transactionHash = None\<rparr>,
           \<lparr>upd_payoutId = Some ''po-1'', upd_status = ''COMPLETE'',
            upd_transactionHash = Some ''0xh''\<rparr>] paid_store)) = [Item_COMPLETED]
   \<and> list_all2 (\<lambda>a b. terminal a = terminal b)
       (map item_status (payrollItems paid_store))
       (map item_status
         (payrollItems (apply_updates 60
          [\<lparr>upd_payoutId = Some ''po-1'', upd_status = ''failed'', upd_transactionHash = None\<rparr>,
           \<lparr>upd_payoutId = Some ''po-1'', upd_status = ''COMPLETE'',
            upd_transactionHash = Some ''0xh''\<rparr>] paid_store)))"
proof -
  let ?us = "[\<lparr>upd_payoutId = Some ''po-1'', upd_status = ''failed'', upd_transactionHash = None\<rparr>,
           \<lparr>upd_payoutId = Some ''po-1'', upd_status = ''COMPLETE'',
            upd_transactionHash = Some ''0xh''\<rparr>]"
  have r: "list_all reports_terminal [''failed'', ''COMPLETE'']" by code_simp
  then have all: "\<forall>u\<in>set ?us. reports_terminal (upd_status u)" by simp
  have before: "map item_status (payrollItems paid_store) = [Item_COMPLETED]" by code_simp
  have after: "map item_status (payrollItems (apply_updates 60 ?us paid_store)) = [Item_COMPLETED]"
    by code_simp
  from payout_status_updates[of paid_store 60 ?us] all
  have "list_all2 (\<lambda>i i'. terminal (item_status i) \<longrightarrow> terminal (item_status i'))
          (payrollItems paid_store) (payrollItems (apply_updates 60 ?us paid_store))"
    by blast
  with r before after show ?thesis by (simp add: terminal_def)
qed

text \<open>
  C4 as stated fails: a report \<open>processing\<close> for the payout of a COMPLETED item moves
  the item back to PROCESSING.
\<close>

theorem terminal_status_regresses:
  "map item_status (payrollItems paid_store) = [Item_COMPLETED]
   \<and> map item_status
       (payrollItems (updatePayoutStatus 60 (Some ''po-1'') ''processing'' None paid_store)) =
     [Item_PROCESSING]"
  by code_simp

section \<open>Properties of the webhook endpoints\<close>

text \<open>
  The Circle endpoint answers 401 and leaves the ledger alone when the signature
  header is missing or is not \<open>sha256=\<close> followed by the keyed hash of the body.
\<close>

lemma circle_rejects_bad_signature:
  assumes "signature \<noteq> Some (''sha256='' @ hmac secret (stringify body))"
  shows "post_circle hmac secret stringify now signature body s = (invalid_signature_reply, s)"
  using assms
  by (auto simp: post_circle_def verifyWebhookSignature_def Let_def split: option.splits)

lemma circle_rejects_other_payload:
  "post_circle sample_hmac ''k'' sample_stringify 60
     (Some (''sha256='' @ sample_hmac ''k'' (sample_stringify other_body)))
     payout_failed_body paid_store = (invalid_signature_reply, paid_store)"
proof -
  have "Some (''sha256='' @ sample_hmac ''k'' (sample_stringify other_body)) \<noteq>
        Some (''sha256='' @ sample_hmac ''k'' (sample_stringify payout_failed_body))"
    by code_simp
  then show ?thesis by (rule circle_rejects_bad_signature)
qed

text \<open>
  C5 fails on the other three endpoints, which never look at a signature and never
  answer 401. An unsigned notification to the CCTP endpoint is accepted with 200, or,
  when it says \<open>attested\<close> and carries an attestation, runs into the unbound
  \<^verbatim>\<open>prisma\<close> and is answered 500; an unsigned notification to the gas-station or to
  the paymaster endpoint is answered 500. For every request the answer is the one the
  same request without a signature gets, and the ledger is left as it was (the updates
  the handlers describe are never applied).
\<close>

theorem unsigned_webhooks_not_rejected:
  "post_cctp None
     \<lparr>cctp_messageHash = Some ''0xmsg'', cctp_attestation = None,
      cctp_status = Some ''pending''\<rparr> transfer_store = (received_reply, transfer_store)
   \<and> reply_status received_reply = 200
   \<and> post_cctp None
        \<lparr>cctp_messageHash = Some ''0xmsg'', cctp_attestation = Some ''0xforged'',
         cctp_status = Some ''attested''\<rparr> transfer_store =
       (processing_error_reply ''Failed to process CCTP webhook'' ''CCTP_WEBHOOK_ERROR'',
        transfer_store)
   \<and> post_gas_station None
        \<lparr>ob_hash = Some ''tx-1'', ob_status = Some ''completed'', ob_gasFeeInUSDC = None\<rparr>
        transfer_store =
       (processing_error_reply ''Failed to process Gas Station webhook''
          ''GAS_STATION_WEBHOOK_ERROR'', transfer_store)
   \<and> post_paymaster None
        \<lparr>ob_hash = Some ''0xop'', ob_status = Some ''failed'', ob_gasFeeInUSDC = None\<rparr>
        transfer_store =
       (processing_error_reply ''Failed to process Paymaster webhook''
          ''PAYMASTER_WEBHOOK_ERROR'', transfer_store)
   \<and> reply_status (processing_error_reply msg code) = 500
   \<and> post_cctp signature cb s = post_cctp None cb s
   \<and> post_gas_station signature ob s = post_gas_station None ob s
   \<and> post_paymaster signature ob s = post_paymaster None ob s
   \<and> reply_status (fst (post_cctp signature cb s)) \<in> {200, 500}
   \<and> reply_status (fst (post_gas_station signature ob s)) = 500
   \<and> reply_status (fst (post_paymaster signature ob s)) = 500
   \<and> snd (post_cctp signature cb s) = s
   \<and> snd (post_gas_station signature ob s) = s
   \<and> snd (post_paymaster signature ob s) = s"
  by (simp add: post_cctp_def post_gas_station_def post_paymaster_def prisma_updateMany_def
      received_reply_def processing_error_reply_def truthy_def)

section \<open>Properties of attestation monitoring\<close>

lemma is_poll_simps [simp]:
  "is_poll (Poll k) = True" "is_poll (Sleep n) = False" "is_poll (LogError k) = False"
  by (simp_all add: is_poll_def)

lemma monitor_loop_done:
  "\<not> attempts < maxAttempts \<Longrightarrow>
   monitor_loop svc h maxAttempts attempts = (Inl (ErrorObj ''Transfer monitoring timeout''), [])"
  by (simp add: monitor_loop.simps)

lemma monitor_loop_times_out:
  assumes "\<forall>k a. getAttestation (svc k) \<noteq> Inr (Some a)"
  shows "fst (monitor_loop svc h maxAttempts attempts) =
           Inl (ErrorObj ''Transfer monitoring timeout'')
       \<and> length (filter is_poll (snd (monitor_loop svc h maxAttempts attempts))) =
           nat (maxAttempts - attempts)"
  using assms
proof (induction svc h maxAttempts attempts rule: monitor_loop.induct)
  case (1 svc h maxAttempts attempts)
  show ?case
  proof (cases "attempts < maxAttempts")
    case False
    then show ?thesis by (simp add: monitor_loop_done)
  next
    case True
    then have n: "nat (maxAttempts - attempts) = Suc (nat (maxAttempts - (attempts + 1)))"
      by simp
    show ?thesis
    proof (cases "getAttestation (svc attempts)")
      case (Inl e)
      with "1.IH"(1)[OF True Inl "1.prems"] True n show ?thesis
        by (subst (1 2) monitor_loop.simps) (auto split: prod.splits)
    next
      case (Inr v)
      with "1.prems" have v: "v = None" by (cases v) auto
      with Inr have g: "getAttestation (svc attempts) = Inr None" by simp
      with "1.IH"(2)[OF True Inr v "1.prems"] True n show ?thesis
        by (subst (1 2) monitor_loop.simps) (auto split: prod.splits)
    qed
  qed
qed

lemma monitor_loop_waits:
  assumes "\<forall>k. getAttestation (svc k) = Inr None"
  shows "snd (monitor_loop svc h maxAttempts attempts) =
           concat (map (\<lambda>k. [Poll k, Sleep 30000]) [attempts..maxAttempts - 1])"
  using assms
proof (induction svc h maxAttempts attempts rule: monitor_loop.induct)
  case (1 svc h maxAttempts attempts)
  show ?case
  proof (cases "attempts < maxAttempts")
    case False
    then show ?thesis by (simp add: monitor_loop_done)
  next
    case True
    then have u: "[attempts..maxAttempts - 1] = attempts # [attempts + 1..maxAttempts - 1]"
      by (simp add: upto_rec1)
    from "1.prems" have g: "getAttestation (svc attempts) = Inr None" by simp
    from "1.IH"(2)[OF True g refl "1.prems"] True g u show ?thesis
      by (subst monitor_loop.simps) (auto split: prod.splits)
  qed
qed

text \<open>
  C9, the part the code keeps. When the attestation service never returns an attestation,
  \<^verbatim>\<open>monitorTransfer\<close> with attempt bound \<open>n\<close> (60 by default) makes exactly \<open>n\<close>
  requests and then throws the error ``Transfer monitoring timeout'' instead of
  returning a transfer. When every request is answered ``not yet available'' the
  events are, \<open>n\<close> times, a request followed by a wait of 30 seconds. A 404 is reported
  as null, not as an error. (The function has no access to the ledger, so it marks
  nothing COMPLETED.)
\<close>

theorem monitor_times_out:
  assumes "\<forall>k a. getAttestation (svc k) \<noteq> Inr (Some a)"
  shows "fst (monitorTransfer svc h (Some n)) = Inl (ErrorObj ''Transfer monitoring timeout'')
     \<and> length (filter is_poll (snd (monitorTransfer svc h (Some n)))) = nat n
     \<and> fst (monitorTransfer svc h None) = Inl (ErrorObj ''Transfer monitoring timeout'')
     \<and> length (filter is_poll (snd (monitorTransfer svc h None))) = 60
     \<and> ((\<forall>k. getAttestation (svc k) = Inr None) \<longrightarrow>
          snd (monitorTransfer svc h (Some n)) =
            concat (map (\<lambda>k. [Poll k, Sleep 30000]) [0..n - 1]))
     \<and> getAttestation NotFound404 = Inr None"
proof -
  note T = monitor_loop_times_out[OF assms]
  have w: "(\<forall>k. getAttestation (svc k) = Inr None) \<longrightarrow>
          snd (monitorTransfer svc h (Some n)) =
            concat (map (\<lambda>k. [Poll k, Sleep 30000]) [0..n - 1])"
    by (simp add: monitorTransfer_def monitor_loop_waits)
  from T[of h n 0] T[of h 60 0] w show ?thesis
    by (simp add: monitorTransfer_def getAttestation_def)
qed

theorem monitor_times_out_witness:
  "getAttestation (pending_service 0) = Inr None
   \<and> monitorTransfer pending_service ''0xmsg'' (Some 3) =
       (Inl (ErrorObj ''Transfer monitoring timeout''),
        [Poll 0, Sleep 30000, Poll 1, Sleep 30000, Poll 2, Sleep 30000])
   \<and> fst (monitorTransfer pending_service ''0xmsg'' None) =
       Inl (ErrorObj ''Transfer monitoring timeout'')
   \<and> length (filter is_poll (snd (monitorTransfer pending_service ''0xmsg'' None))) = 60"
proof -
  have all: "\<forall>k. getAttestation (pending_service k) = Inr None"
    by (simp add: pending_service_def getAttestation_def)
  then have never: "\<forall>k a. getAttestation (pending_service k) \<noteq> Inr (Some a)" by simp
  have l: "concat (map (\<lambda>k. [Poll k, Sleep 30000]) [0..3 - 1]) =
      [Poll 0, Sleep 30000, Poll 1, Sleep 30000, Poll 2, Sleep 30000]"
    by (simp add: upto_rec1)
  from monitor_times_out[OF never, of "''0xmsg''" 3] all l
  show ?thesis by (simp add: prod_eq_iff)
qed

text \<open>
  C9 fails on the interval when a request fails (other than with 404): the wait of 30
  seconds that the loop's comment announces before the next attempt stands inside the
  \<^verbatim>\<open>try\<close>, after the request, so the \<^verbatim>\<open>catch\<close> block only logs and counts, and
  the loop goes to the next attempt at once. Two attempts, no wait between them, where
  the path of a ``not yet available'' answer waits after each.
\<close>

theorem failed_polls_do_not_wait:
  "monitorTransfer erroring_service ''0xmsg'' (Some 2) =
     (Inl (ErrorObj ''Transfer monitoring timeout''),
      [Poll 0, LogError 0, Poll 1, LogError 1])"
  by (simp add: monitorTransfer_def monitor_loop.simps erroring_service_def getAttestation_def)

section \<open>Properties of fee-abstracted operations\<close>

lemma fee_check_rejects:
  assumes "c \<in> set supported_chains"
    and "estimateGas env c transaction = Inr gasEstimate"
    and "js_gt (parseFloat rt (calculateUSDCGasFee rt c gasEstimate))
           (parseFloat rt (case max_opt of None \<Rightarrow> default_maxGasFeeUSDC | Some m \<Rightarrow> m))"
  shows "createUserOperationWithUSDCGas rt env walletAddress c transaction max_opt =
     (Inl (ErrorObj (fee_exceeds_message (calculateUSDCGasFee rt c gasEstimate)
             (case max_opt of None \<Rightarrow> default_maxGasFeeUSDC | Some m \<Rightarrow> m))),
      [EstimateGas])"
  using assms by (simp add: createUserOperationWithUSDCGas_def Let_def)

text \<open>
  C8. In \<^verbatim>\<open>POST /workers/:id/usdc-gas-transaction\<close>, for a worker with a wallet and a
  request with its required fields: when the fee computed from the gas estimate is
  greater than the ceiling (the caller's, or the configured 10.00 when the caller
  gives none; both read with \<^verbatim>\<open>parseFloat\<close>, as the code compares them), the
  answer is an error carrying the message that the fee exceeds the maximum, the only
  external call made is the gas estimate, nothing is submitted to the bundler, and the
  ledger is unchanged, so no operation record exists.
\<close>

theorem fee_ceiling_enforced:
  assumes fields: "truthy (ug_chain body)" "truthy (ug_to body)" "truthy (ug_data body)"
    and worker: "find_worker wid s = Some worker" "truthy (walletId worker)"
    and chain_ok: "the (ug_chain body) \<in> set supported_chains"
    and estimate: "estimateGas env (the (ug_chain body))
        \<lparr>tx_to = the (ug_to body), tx_data = the (ug_data body), tx_value = ug_value body\<rparr> =
        Inr gasEstimate"
    and ceiling: "maxGasFeeUSDC =
        (case ug_maxGasFeeUSDC body of None \<Rightarrow> default_maxGasFeeUSDC | Some m \<Rightarrow> m)"
    and exceeds: "js_gt (parseFloat rt (calculateUSDCGasFee rt (the (ug_chain body)) gasEstimate))
        (parseFloat rt maxGasFeeUSDC)"
  shows "post_usdc_gas_transaction rt env wid body s =
     (\<lparr>reply_status = 500,
       reply_error =
         Some (fee_exceeds_message (calculateUSDCGasFee rt (the (ug_chain body)) gasEstimate)
                 maxGasFeeUSDC, ''USDC_GAS_TRANSACTION_ERROR''),
       reply_data = None\<rparr>, s, [EstimateGas])
     \<and> filter is_submit (snd (snd (post_usdc_gas_transaction rt env wid body s))) = []
     \<and> paymasterOperations (fst (snd (post_usdc_gas_transaction rt env wid body s))) =
         paymasterOperations s"
proof -
  have svc: "createUserOperationWithUSDCGas rt env (the (walletId worker)) (the (ug_chain body))
      \<lparr>tx_to = the (ug_to body), tx_data = the (ug_data body), tx_value = ug_value body\<rparr>
      (ug_maxGasFeeUSDC body) =
     (Inl (ErrorObj (fee_exceeds_message
             (calculateUSDCGasFee rt (the (ug_chain body)) gasEstimate) maxGasFeeUSDC)),
      [EstimateGas])"
    using fee_check_rejects[OF chain_ok estimate, of rt "ug_maxGasFeeUSDC body"] exceeds ceiling
    by simp
  have "post_usdc_gas_transaction rt env wid body s =
     (\<lparr>reply_status = 500,
       reply_error =
         Some (fee_exceeds_message (calculateUSDCGasFee rt (the (ug_chain body)) gasEstimate)
                 maxGasFeeUSDC, ''USDC_GAS_TRANSACTION_ERROR''),
       reply_data = None\<rparr>, s, [EstimateGas])"
    using fields worker svc by (simp add: post_usdc_gas_transaction_def usdc_gas_error_def)
  then show ?thesis by (simp add: is_submit_def)
qed

theorem fee_ceiling_enforced_witness:
  "truthy (ug_chain sample_gas_body) \<and> truthy (ug_to sample_gas_body)
   \<and> truthy (ug_data sample_gas_body)
   \<and> map_option walletId (find_worker 1 sample_store) = Some (Some ''wallet-1'')
   \<and> calculateUSDCGasFee sample_builtins ''ethereum''
        \<lparr>gasLimit = 100000, maxFeePerGas = 100000000000, maxPriorityFeePerGas = 1000000000\<rparr> =
      ''26.250000''
   \<and> js_gt (parseFloat sample_builtins ''26.250000'') (parseFloat sample_builtins ''10.00'')
   \<and> post_usdc_gas_transaction sample_builtins sample_chain_env 1 sample_gas_body sample_store =
       (\<lparr>reply_status = 500,
         reply_error = Some (''Gas fee 26.250000 USDC exceeds maximum 10.00 USDC'',
                             ''USDC_GAS_TRANSACTION_ERROR''),
         reply_data = None\<rparr>, sample_store, [EstimateGas])"
proof -
  let ?est = "\<lparr>gasLimit = 100000, maxFeePerGas = 100000000000,
               maxPriorityFeePerGas = 1000000000\<rparr> :: GasEstimate"
  have f1: "truthy (ug_chain sample_gas_body)" and f2: "truthy (ug_to sample_gas_body)"
    and f3: "truthy (ug_data sample_gas_body)" by code_simp+
  obtain worker where w: "find_worker 1 sample_store = Some worker"
    and ww: "walletId worker = Some ''wallet-1''"
    by (simp add: find_worker_def sample_store_def sample_workers_def)
  from ww have w2: "truthy (walletId worker)" by (simp add: truthy_def)
  have c: "the (ug_chain sample_gas_body) \<in> set supported_chains" by code_simp
  have chain: "the (ug_chain sample_gas_body) = ''ethereum''" by code_simp
  have e: "estimateGas sample_chain_env (the (ug_chain sample_gas_body))
        \<lparr>tx_to = the (ug_to sample_gas_body), tx_data = the (ug_data sample_gas_body),
         tx_value = ug_value sample_gas_body\<rparr> = Inr ?est"
    by (simp add: sample_chain_env_def)
  have m: "''10.00'' = (case ug_maxGasFeeUSDC sample_gas_body of
      None \<Rightarrow> default_maxGasFeeUSDC | Some m \<Rightarrow> m)" by code_simp
  have fee: "calculateUSDCGasFee sample_builtins ''ethereum'' ?est = ''26.250000''" by code_simp
  have gt: "js_gt (parseFloat sample_builtins ''26.250000'') (parseFloat sample_builtins ''10.00'')"
    by code_simp
  have gt': "js_gt (parseFloat sample_builtins
      (calculateUSDCGasFee sample_builtins (the (ug_chain sample_gas_body)) ?est))
      (parseFloat sample_builtins ''10.00'')"
    using gt fee chain by simp
  have msg: "fee_exceeds_message ''26.250000'' ''10.00'' =
      ''Gas fee 26.250000 USDC exceeds maximum 10.00 USDC''" by code_simp
  from fee_ceiling_enforced[OF f1 f2 f3 w w2 c e m gt'] fee chain msg w ww f1 f2 f3 gt
  show ?thesis by simp
qed

section \<open>Properties of run creation\<close>

lemma workers_update_worker:
  "workers (update_worker wid f s) = map (\<lambda>w. if worker_id w = wid then f w else w) (workers s)"
  by (simp add: update_worker_def)

lemma other_update_worker [simp]:
  "payrollItems (update_worker wid f s) = payrollItems s"
  "payrollRuns (update_worker wid f s) = payrollRuns s"
  "auditLogs (update_worker wid f s) = auditLogs s"
  "nextId (update_worker wid f s) = nextId s"
  by (simp_all add: update_worker_def)

text \<open>The two provisioning steps: what they can do to the ledger and what they log.\<close>

lemma provision_recipient_cases:
  "(createRecipient pv (row_email row) wid (row_name row) \<in> range Inl \<longrightarrow>
      provision_recipient pv row wid s =
        (s, [CallCreateRecipient (row_email row), Warn ''Failed to create Circle recipient'']))
   \<and> (fst (provision_recipient pv row wid s) = s \<or>
       (\<exists>r. createRecipient pv (row_email row) wid (row_name row) = Inr r \<and>
            fst (provision_recipient pv row wid s) =
              update_worker wid (\<lambda>w. w\<lparr>recipientId := set_opt r (recipientId w)\<rparr>) s))
   \<and> set (snd (provision_recipient pv row wid s)) \<subseteq>
       {CallCreateRecipient (row_email row), Warn ''Failed to create Circle recipient''}"
  by (cases "createRecipient pv (row_email row) wid (row_name row)")
     (auto simp: provision_recipient_def)

lemma provision_wallet_cases:
  "(createWallet pv wid (row_chain row) \<in> range Inl \<longrightarrow>
      provision_wallet pv row wid s =
        (s, [CallCreateWallet wid, Warn ''Failed to create programmable wallet'']))
   \<and> (fst (provision_wallet pv row wid s) = s \<or>
       (\<exists>r. createWallet pv wid (row_chain row) = Inr r \<and>
            fst (provision_wallet pv row wid s) =
              update_worker wid (\<lambda>w. w\<lparr>walletId := set_opt r (walletId w)\<rparr>) s))
   \<and> set (snd (provision_wallet pv row wid s)) \<subseteq>
       {CallCreateWallet wid, Warn ''Failed to create programmable wallet''}"
  by (cases "createWallet pv wid (row_chain row)")
     (auto simp: provision_wallet_def)

lemma map_upd_fresh:
  assumes "\<forall>w\<in>set ws. worker_id w < n"
  shows "map (\<lambda>w. if worker_id w = n then f w else w) ws = ws"
  using assms by (induction ws) auto

text \<open>
  Creating a worker on a ledger whose worker identifiers are all below the counter:
  one row is appended, holding what the two provisioning steps stored: nothing when
  the call threw or the identifier was taken, and then a warning is logged.
\<close>

lemma find_or_create_new:
  assumes none: "find_worker_by_email (row_email row) s = None"
    and fresh: "\<forall>w\<in>set (workers s). worker_id w < nextId s"
  shows "find_or_create_worker pv row s =
       (nextId s,
        s\<lparr>workers := workers s @
             [\<lparr>worker_id = nextId s, worker_name = row_name row, worker_email = row_email row,
               walletId =
                 (case createWallet pv (nextId s) (row_chain row) of
                    Inl e \<Rightarrow> None
                  | Inr r \<Rightarrow> if r \<noteq> None \<and> (\<exists>w\<in>set (workers s). walletId w = r)
                           then None else r),
               recipientId =
                 (case createRecipient pv (row_email row) (nextId s) (row_name row) of
                    Inl e \<Rightarrow> None
                  | Inr r \<Rightarrow> if r \<noteq> None \<and> (\<exists>w\<in>set (workers s). recipientId w = r)
                           then None else r)\<rparr>],
          nextId := Suc (nextId s)\<rparr>,
        snd (provision_recipient pv row (nextId s)
               (s\<lparr>workers := workers s @
                    [\<lparr>worker_id = nextId s, worker_name = row_name row,
                      worker_email = row_email row, walletId = None, recipientId = None\<rparr>],
                  nextId := Suc (nextId s)\<rparr>)) @
        snd (provision_wallet pv row (nextId s)
               (fst (provision_recipient pv row (nextId s)
                 (s\<lparr>workers := workers s @
                    [\<lparr>worker_id = nextId s, worker_name = row_name row,
                      worker_email = row_email row, walletId = None, recipientId = None\<rparr>],
                  nextId := Suc (nextId s)\<rparr>)))))"
proof -
  note m = map_upd_fresh[OF fresh]
  from fresh have ne: "\<And>w. w \<in> set (workers s) \<Longrightarrow> worker_id w \<noteq> nextId s" by auto
  show ?thesis
    using none
    by (cases "createRecipient pv (row_email row) (nextId s) (row_name row)";
        cases "createWallet pv (nextId s) (row_chain row)")
       (auto simp: find_or_create_worker_def provision_recipient_def provision_wallet_def
          update_worker_def Let_def set_opt_def m ne split: option.splits prod.splits)
qed

lemma find_or_create_old:
  assumes "find_worker_by_email (row_email row) s = Some w"
  shows "find_or_create_worker pv row s = (worker_id w, s, [])"
    and "w \<in> set (workers s)" and "worker_email w = row_email row"
proof -
  show "find_or_create_worker pv row s = (worker_id w, s, [])"
    using assms by (simp add: find_or_create_worker_def)
  from assms show "w \<in> set (workers s)" "worker_email w = row_email row"
    by (auto simp: find_worker_by_email_def find_Some_iff)
qed

lemma provision_events:
  "TxBegin \<notin> set (snd (provision_recipient pv row wid s))"
  "TxCommit \<notin> set (snd (provision_recipient pv row wid s))"
  "TxBegin \<notin> set (snd (provision_wallet pv row wid s))"
  "TxCommit \<notin> set (snd (provision_wallet pv row wid s))"
  using provision_recipient_cases[where pv = pv and row = row and wid = wid and s = s]
    provision_wallet_cases[where pv = pv and row = row and wid = wid and s = s]
  by auto

lemma provision_warns:
  "createRecipient pv (row_email row) wid (row_name row) \<in> range Inl \<Longrightarrow>
     Warn ''Failed to create Circle recipient'' \<in> set (snd (provision_recipient pv row wid s))"
  "createWallet pv wid (row_chain row) \<in> range Inl \<Longrightarrow>
     Warn ''Failed to create programmable wallet'' \<in> set (snd (provision_wallet pv row wid s))"
  using provision_recipient_cases[where pv = pv and row = row and wid = wid and s = s]
    provision_wallet_cases[where pv = pv and row = row and wid = wid and s = s]
  by auto

text \<open>Finding or creating the worker of a row keeps the invariant.\<close>

lemma find_or_create_facts:
  assumes inv: "create_inv pv n0 s ev"
    and foc: "find_or_create_worker pv row s = (wid, s1, ev1)"
  shows "create_inv pv n0 s1 (ev @ ev1)"
    and "payrollItems s1 = payrollItems s" and "payrollRuns s1 = payrollRuns s"
    and "\<exists>new. workers s1 = workers s @ new"
    and "\<exists>w\<in>set (workers s1). worker_email w = row_email row \<and> worker_id w = wid"
proof -
  from inv have fresh: "\<forall>w\<in>set (workers s). worker_id w < nextId s"
    by (simp add: create_inv_def)
  have "create_inv pv n0 s1 (ev @ ev1) \<and> payrollItems s1 = payrollItems s \<and>
        payrollRuns s1 = payrollRuns s \<and> (\<exists>new. workers s1 = workers s @ new) \<and>
        (\<exists>w\<in>set (workers s1). worker_email w = row_email row \<and> worker_id w = wid)"
  proof (cases "find_worker_by_email (row_email row) s")
    case None
    note new = find_or_create_new[OF None fresh, where pv = pv]
    from foc[unfolded new] have wid: "wid = nextId s"
      and s1: "s1 = s\<lparr>workers := workers s @
             [\<lparr>worker_id = nextId s, worker_name = row_name row, worker_email = row_email row,
               walletId =
                 (case createWallet pv (nextId s) (row_chain row) of
                    Inl e \<Rightarrow> None
                  | Inr r \<Rightarrow> if r \<noteq> None \<and> (\<exists>w\<in>set (workers s). walletId w = r)
                           then None else r),
               recipientId =
                 (case createRecipient pv (row_email row) (nextId s) (row_name row) of
                    Inl e \<Rightarrow> None
                  | Inr r \<Rightarrow> if r \<noteq> None \<and> (\<exists>w\<in>set (workers s). recipientId w = r)
                           then None else r)\<rparr>],
          nextId := Suc (nextId s)\<rparr>"
      and ev1: "ev1 = snd (provision_recipient pv row (nextId s)
               (s\<lparr>workers := workers s @
                    [\<lparr>worker_id = nextId s, worker_name = row_name row,
                      worker_email = row_email row, walletId = None, recipientId = None\<rparr>],
                  nextId := Suc (nextId s)\<rparr>)) @
        snd (provision_wallet pv row (nextId s)
               (fst (provision_recipient pv row (nextId s)
                 (s\<lparr>workers := workers s @
                    [\<lparr>worker_id = nextId s, worker_name = row_name row,
                      worker_email = row_email row, walletId = None, recipientId = None\<rparr>],
                  nextId := Suc (nextId s)\<rparr>))))"
      by auto
    have inv1: "create_inv pv n0 s1 (ev @ ev1)"
    proof (cases "\<forall>c. createWallet pv (nextId s) c \<in> range Inl")
      case True
      then obtain e where "createWallet pv (nextId s) (row_chain row) = Inl e" by blast
      with inv show ?thesis unfolding create_inv_def s1 ev1
        by (auto simp: provision_events provision_warns split: sum.splits dest: less_SucI)
    next
      case False
      with inv show ?thesis unfolding create_inv_def s1 ev1
        by (auto simp: provision_events provision_warns split: sum.splits dest: less_SucI)
    qed
    show ?thesis using inv1 by (simp add: s1 wid)
  next
    case (Some w)
    note old = find_or_create_old[OF Some]
    from foc[unfolded old(1)] have "wid = worker_id w" "s1 = s" "ev1 = []" by auto
    with inv old(2,3) show ?thesis by auto
  qed
  then show "create_inv pv n0 s1 (ev @ ev1)"
    and "payrollItems s1 = payrollItems s" and "payrollRuns s1 = payrollRuns s"
    and "\<exists>new. workers s1 = workers s @ new"
    and "\<exists>w\<in>set (workers s1). worker_email w = row_email row \<and> worker_id w = wid"
    by simp_all
qed

text \<open>One turn of the loop keeps the invariant, appends one item for the row, and leaves
  a worker with the row's email whom the item references.\<close>

lemma create_row_step:
  assumes inv: "create_inv pv n0 s ev"
    and step: "create_row pv rid row (s, acc, ev) = (s', acc', ev')"
  shows "create_inv pv n0 s' ev'"
    and "\<exists>item. acc' = acc @ [item] \<and> amount item = row_amount row \<and>
           payrollRunId item = rid \<and> item_status item = Item_PENDING \<and>
           payrollItems s' = payrollItems s @ [item] \<and>
           (\<exists>w\<in>set (workers s'). worker_email w = row_email row \<and>
                workerId item = worker_id w)"
    and "\<exists>new. workers s' = workers s @ new"
    and "payrollRuns s' = payrollRuns s"
proof -
  obtain wid s1 ev1 where foc: "find_or_create_worker pv row s = (wid, s1, ev1)"
    by (cases "find_or_create_worker pv row s") auto
  note F = find_or_create_facts[OF inv foc]
  let ?item = "\<lparr>item_id = nextId s1, payrollRunId = rid, workerId = wid, amount = row_amount row,
               chain = toUpperCase (row_chain row), item_status = Item_PENDING, payoutId = None,
               transactionHash = None, errorMessage = None, item_completedAt = None\<rparr>"
  from step foc have s': "workers s' = workers s1" "nextId s' = Suc (nextId s1)"
      "payrollItems s' = payrollItems s1 @ [?item]" "payrollRuns s' = payrollRuns s1"
    and acc': "acc' = acc @ [?item]" and ev': "ev' = ev @ ev1"
    by (auto simp: create_row_def Let_def)
  from F(1) show "create_inv pv n0 s' ev'"
    unfolding create_inv_def s' ev' by (auto dest: less_SucI)
  from F(5) show "\<exists>item. acc' = acc @ [item] \<and> amount item = row_amount row \<and>
           payrollRunId item = rid \<and> item_status item = Item_PENDING \<and>
           payrollItems s' = payrollItems s @ [item] \<and>
           (\<exists>w\<in>set (workers s'). worker_email w = row_email row \<and>
                workerId item = worker_id w)"
    unfolding s' acc' F(2) by (intro exI[of _ ?item]) auto
  from F(4) show "\<exists>new. workers s' = workers s @ new" by (simp add: s')
  from F(3) show "payrollRuns s' = payrollRuns s" by (simp add: s')
qed

lemma create_rows_snoc:
  "create_rows pv rid (rows @ [row]) st = create_row pv rid row (create_rows pv rid rows st)"
  by (induction rows arbitrary: st) simp_all

text \<open>The loop over the rows, from a state that satisfies the invariant.\<close>

lemma create_rows_facts:
  assumes inv0: "create_inv pv n0 s0 []"
    and loop: "create_rows pv rid rows (s0, [], []) = (s, acc, ev)"
  shows "create_inv pv n0 s ev \<and> map amount acc = map row_amount rows \<and>
     (\<forall>i\<in>set acc. payrollRunId i = rid \<and> item_status i = Item_PENDING) \<and>
     payrollItems s = payrollItems s0 @ acc \<and> (\<exists>new. workers s = workers s0 @ new) \<and>
     payrollRuns s = payrollRuns s0 \<and>
     (\<forall>row\<in>set rows. \<exists>w\<in>set (workers s). worker_email w = row_email row \<and>
        (\<exists>i\<in>set acc. workerId i = worker_id w \<and> amount i = row_amount row))"
  using loop
proof (induction rows arbitrary: s acc ev rule: rev_induct)
  case Nil
  with inv0 show ?case by auto
next
  case (snoc row rows)
  obtain s1 acc1 ev1 where prev: "create_rows pv rid rows (s0, [], []) = (s1, acc1, ev1)"
    by (cases "create_rows pv rid rows (s0, [], [])") auto
  note IH = snoc.IH[OF prev]
  from snoc.prems prev have step: "create_row pv rid row (s1, acc1, ev1) = (s, acc, ev)"
    by (simp add: create_rows_snoc)
  from IH have inv1: "create_inv pv n0 s1 ev1" by simp
  note S = create_row_step[OF inv1 step]
  from S(2) obtain item where item: "acc = acc1 @ [item]" "amount item = row_amount row"
      "payrollRunId item = rid" "item_status item = Item_PENDING"
      "payrollItems s = payrollItems s1 @ [item]"
      "\<exists>w\<in>set (workers s). worker_email w = row_email row \<and> workerId item = worker_id w"
    by blast
  from S(3) obtain new where new: "workers s = workers s1 @ new" by blast
  have old_rows: "\<exists>w\<in>set (workers s). worker_email w = row_email r \<and>
        (\<exists>i\<in>set acc. workerId i = worker_id w \<and> amount i = row_amount r)"
    if "r \<in> set rows" for r
  proof -
    from IH that obtain w i where "w \<in> set (workers s1)" "worker_email w = row_email r"
      "i \<in> set acc1" "workerId i = worker_id w" "amount i = row_amount r" by blast
    then show ?thesis unfolding new item(1) by auto
  qed
  have new_row: "\<exists>w\<in>set (workers s). worker_email w = row_email row \<and>
        (\<exists>i\<in>set acc. workerId i = worker_id w \<and> amount i = row_amount row)"
    using item(2,6) unfolding item(1) by auto
  from IH obtain new1 where "workers s1 = workers s0 @ new1" by blast
  then have w: "\<exists>new. workers s = workers s0 @ new" unfolding new by simp
  from S(1) S(4) IH item w old_rows new_row show ?case by auto
qed

text \<open>
  C7, as the code has it. \<^verbatim>\<open>createPayrollRun\<close> makes the gateway calls for a new
  worker inside the transaction callback: the events of a call are the begin of the
  transaction, then the gateway calls and warnings of the rows, then the commit. Each
  gateway call sits in its own \<^verbatim>\<open>try\<close>: whatever the calls do, the run is
  created (PENDING, one item per row, each row's worker present and referenced by an
  item with the row's amount); a worker created by this call whose recipient call
  throws has no recipient and the failure is logged as a warning, and likewise for the
  wallet.
\<close>

theorem create_provisioning_best_effort:
  assumes fresh: "\<forall>w\<in>set (workers s). worker_id w < nextId s"
    and cr: "createPayrollRun rt pv admin rows s = (res, s', ev)"
  shows "(\<exists>body. ev = [TxBegin] @ body @ [TxCommit] \<and> TxBegin \<notin> set body \<and>
            TxCommit \<notin> set body)
     \<and> (\<exists>r. res = Inr r \<and> run_status (created_payrollRun r) = Run_PENDING \<and>
           totalWorkers (created_payrollRun r) = length rows \<and>
           map amount (created_payrollItems r) = map row_amount rows \<and>
           set (created_payrollItems r) \<subseteq> set (payrollItems s') \<and>
           (\<forall>row\<in>set rows. \<exists>w\<in>set (workers s'). worker_email w = row_email row \<and>
              (\<exists>i\<in>set (created_payrollItems r).
                 workerId i = worker_id w \<and> amount i = row_amount row)))
     \<and> (\<forall>w\<in>set (workers s'). nextId s < worker_id w \<longrightarrow>
           (createRecipient pv (worker_email w) (worker_id w) (worker_name w) \<in> range Inl \<longrightarrow>
              recipientId w = None \<and> Warn ''Failed to create Circle recipient'' \<in> set ev) \<and>
           ((\<forall>c. createWallet pv (worker_id w) c \<in> range Inl) \<longrightarrow>
              walletId w = None \<and> Warn ''Failed to create programmable wallet'' \<in> set ev))"
proof -
  let ?run = "\<lparr>run_id = nextId s, adminId = admin, run_status = Run_DRAFT,
      totalAmount = calculateTotalAmount rt (map row_amount rows),
      totalWorkers = length rows, run_completedAt = None\<rparr>"
  let ?s0 = "s\<lparr>payrollRuns := payrollRuns s @ [?run], nextId := Suc (nextId s)\<rparr>"
  obtain s1 acc body where loop: "create_rows pv (nextId s) rows (?s0, [], []) = (s1, acc, body)"
    by (cases "create_rows pv (nextId s) rows (?s0, [], [])") auto
  have inv0: "create_inv pv (Suc (nextId s)) ?s0 []"
    using fresh by (auto simp: create_inv_def dest: less_SucI)
  note L = create_rows_facts[OF inv0 loop]
  from cr loop have res: "res = Inr \<lparr>created_payrollRun = ?run\<lparr>run_status := Run_PENDING\<rparr>,
        created_payrollItems = acc\<rparr>"
    and ev: "ev = [TxBegin] @ body @ [TxCommit]"
    and w': "workers s' = workers s1" and i': "payrollItems s' = payrollItems s1"
    by (auto simp: createPayrollRun_def Let_def update_run_def)
  from L have inv: "create_inv pv (Suc (nextId s)) s1 body" by simp
  have part1: "\<exists>body. ev = [TxBegin] @ body @ [TxCommit] \<and> TxBegin \<notin> set body \<and>
            TxCommit \<notin> set body"
    using ev inv by (auto simp: create_inv_def)
  have part2: "\<exists>r. res = Inr r \<and> run_status (created_payrollRun r) = Run_PENDING \<and>
           totalWorkers (created_payrollRun r) = length rows \<and>
           map amount (created_payrollItems r) = map row_amount rows \<and>
           set (created_payrollItems r) \<subseteq> set (payrollItems s') \<and>
           (\<forall>row\<in>set rows. \<exists>w\<in>set (workers s'). worker_email w = row_email row \<and>
              (\<exists>i\<in>set (created_payrollItems r).
                 workerId i = worker_id w \<and> amount i = row_amount row))"
    using L unfolding res w' i' by auto
  have part3: "\<forall>w\<in>set (workers s'). nextId s < worker_id w \<longrightarrow>
           (createRecipient pv (worker_email w) (worker_id w) (worker_name w) \<in> range Inl \<longrightarrow>
              recipientId w = None \<and> Warn ''Failed to create Circle recipient'' \<in> set ev) \<and>
           ((\<forall>c. createWallet pv (worker_id w) c \<in> range Inl) \<longrightarrow>
              walletId w = None \<and> Warn ''Failed to create programmable wallet'' \<in> set ev)"
    using inv unfolding create_inv_def w' ev by (auto simp: Suc_le_eq)
  from part1 part2 part3 show ?thesis by blast
qed

theorem create_provisioning_best_effort_witness:
  "workers empty_store = []
   \<and> isl (fst (createPayrollRun sample_builtins failing_provisioner ''admin-1'' sample_rows
              empty_store)) = False
   \<and> map (\<lambda>w. (worker_id w, worker_email w, recipientId w, walletId w))
        (workers (fst (snd (createPayrollRun sample_builtins failing_provisioner ''admin-1''
           sample_rows empty_store)))) = [(1, ''a@x.com'', None, None)]
   \<and> map (\<lambda>i. (workerId i, amount i, item_status i))
        (payrollItems (fst (snd (createPayrollRun sample_builtins failing_provisioner ''admin-1''
           sample_rows empty_store)))) = [(1, ''10.50'', Item_PENDING)]
   \<and> Warn ''Failed to create Circle recipient'' \<in>
        set (snd (snd (createPayrollRun sample_builtins failing_provisioner ''admin-1''
           sample_rows empty_store)))"
proof -
  have fresh: "\<forall>w\<in>set (workers empty_store). worker_id w < nextId empty_store"
    and e: "workers empty_store = []" by (simp_all add: empty_store_def)
  obtain res s' ev where cr: "createPayrollRun sample_builtins failing_provisioner ''admin-1''
      sample_rows empty_store = (res, s', ev)"
    by (cases "createPayrollRun sample_builtins failing_provisioner ''admin-1'' sample_rows
          empty_store") auto
  have ws: "map (\<lambda>w. (worker_id w, worker_email w, recipientId w, walletId w))
        (workers (fst (snd (createPayrollRun sample_builtins failing_provisioner ''admin-1''
           sample_rows empty_store)))) = [(1, ''a@x.com'', None, None)]" by code_simp
  have its: "map (\<lambda>i. (workerId i, amount i, item_status i))
        (payrollItems (fst (snd (createPayrollRun sample_builtins failing_provisioner ''admin-1''
           sample_rows empty_store)))) = [(1, ''10.50'', Item_PENDING)]" by code_simp
  have throws: "createRecipient failing_provisioner ''a@x.com'' 1 ''A'' \<in> range Inl"
    by (simp add: failing_provisioner_def)
  from ws cr obtain w where w: "w \<in> set (workers s')" "worker_id w = 1"
    "worker_email w = ''a@x.com''" "worker_name w = worker_name w" by auto
  note T = create_provisioning_best_effort[OF fresh cr]
  from T have ok: "isl res = False" by auto
  have n: "nextId empty_store < worker_id w" using w by (simp add: empty_store_def)
  have "createRecipient failing_provisioner (worker_email w) (worker_id w) (worker_name w)
      \<in> range Inl" by (simp add: failing_provisioner_def)
  with T w(1) n have "Warn ''Failed to create Circle recipient'' \<in> set ev" by blast
  with e ok ws its cr show ?thesis by simp
qed

text \<open>
  C7 as stated fails on where the gateway is called: for a new worker both calls are
  made after the transaction has begun and before it commits.
\<close>

theorem gateway_calls_inside_transaction:
  "snd (snd (createPayrollRun sample_builtins failing_provisioner ''admin-1'' sample_rows
      empty_store)) =
     [TxBegin, CallCreateRecipient ''a@x.com'', Warn ''Failed to create Circle recipient'',
      CallCreateWallet 1, Warn ''Failed to create programmable wallet'', TxCommit]"
  by code_simp

section \<open>Properties of the total\<close>

lemma round_half_even_error: "\<bar>of_int (round_half_even q) - q\<bar> \<le> 1 / 2"
proof -
  have "of_int \<lfloor>q\<rfloor> \<le> q" "q < of_int \<lfloor>q\<rfloor> + 1" by linarith+
  then show ?thesis
    by (auto simp: round_half_even_def Let_def abs_le_iff)
qed

lemma round_half_even_nonneg: "0 \<le> q \<Longrightarrow> 0 \<le> round_half_even q"
  by (auto simp: round_half_even_def Let_def)

lemma floor_log2_upper:
  assumes "0 < x" "x < 2 ^ k" "0 < k"
  shows "floor_log2 x \<le> int k - 1"
proof (cases "1 \<le> x")
  case True
  from assms(2) have "of_int \<lfloor>x\<rfloor> < (2::rat) ^ k"
    by (meson floor_le_iff le_less_trans of_int_floor_le)
  then have "\<lfloor>x\<rfloor> < 2 ^ k"
    by (metis of_int_less_iff of_int_numeral of_int_power)
  then have "bitlen \<lfloor>x\<rfloor> \<le> int k" by (simp add: bitlen_le_iff_power)
  with True show ?thesis by (simp add: floor_log2_def)
next
  case False
  have "0 \<le> bitlen (\<lceil>1 / x\<rceil> - 1)" by (rule bitlen_nonneg)
  with False assms(3) show ?thesis by (simp add: floor_log2_def)
qed

text \<open>
  Rounding a non-negative rational below \<open>2^k\<close> to a double moves it by at most half a
  unit in the last place, \<open>2^(k - 54)\<close>.
\<close>

lemma to_double_error:
  assumes "0 \<le> x" "x < 2 ^ k" "0 < k" "k \<le> 1000"
  shows "\<exists>y. to_double x = Fin y \<and> 0 \<le> y \<and> \<bar>y - x\<bar> \<le> 2 powi (int k - 54)"
proof (cases "x = 0")
  case True
  then show ?thesis by (simp add: to_double_def)
next
  case False
  with assms have pos: "0 < x" by simp
  define e where "e = max (floor_log2 \<bar>x\<bar> - 52) (- 1074)"
  define m where "m = round_half_even (\<bar>x\<bar> / 2 powi e)"
  define v :: rat where "v = of_int m * 2 powi e"
  have p: "(0::rat) < 2 powi e" by (simp add: power_int_def)
  have e_le: "e \<le> int k - 53"
    using floor_log2_upper[OF pos assms(2,3)] pos assms(3) by (simp add: e_def)
  have "\<bar>of_int m - x / 2 powi e\<bar> \<le> 1 / 2"
    using round_half_even_error[of "\<bar>x\<bar> / 2 powi e"] pos by (simp add: m_def)
  then have "\<bar>of_int m - x / 2 powi e\<bar> * 2 powi e \<le> 1 / 2 * 2 powi e"
    using p by (simp add: mult_right_mono)
  moreover have "\<bar>of_int m - x / 2 powi e\<bar> * 2 powi e = \<bar>v - x\<bar>"
  proof -
    have "\<bar>of_int m - x / 2 powi e\<bar> * 2 powi e = \<bar>(of_int m - x / 2 powi e) * 2 powi e\<bar>"
      using p by (simp add: abs_mult)
    also have "(of_int m - x / 2 powi e) * 2 powi e = v - x"
      using p by (simp add: v_def field_simps)
    finally show ?thesis .
  qed
  ultimately have err: "\<bar>v - x\<bar> \<le> 1 / 2 * 2 powi e" by simp
  have "(2::rat) powi e \<le> 2 powi (int k - 53)"
    using e_le by (intro power_int_increasing) simp_all
  moreover have "(1 / 2) * (2::rat) powi (int k - 53) = 2 powi (int k - 54)"
  proof -
    have "(2::rat) powi (int k - 54 + 1) = 2 powi (int k - 54) * 2"
      by (rule power_int_add_1) simp
    moreover have "int k - 54 + 1 = int k - 53" by simp
    ultimately show ?thesis by simp
  qed
  ultimately have err2: "\<bar>v - x\<bar> \<le> 2 powi (int k - 54)" using err by linarith
  have m0: "0 \<le> m" using pos p by (simp add: m_def round_half_even_nonneg)
  then have v0: "0 \<le> v" using p by (simp add: v_def)
  have "(2::rat) powi (int k - 54) \<le> 2 powi (int k)"
    by (intro power_int_increasing) simp_all
  then have "v \<le> 2 ^ k + 2 ^ k" using err2 assms(2) by (simp add: abs_le_iff)
  also have "\<dots> = (2::rat) ^ Suc k" by simp
  also have "\<dots> < 2 ^ 1024"
    using assms(4) by (intro power_strict_increasing) simp_all
  finally have small: "\<not> of_int (2 ^ 1024) \<le> v" by simp
  have "to_double x = Fin v"
    using False pos small unfolding v_def m_def e_def to_double_def Let_def by simp
  with v0 err2 show ?thesis by blast
qed

lemma digits_val_nonneg_aux:
  "0 \<le> a \<Longrightarrow> list_all is_digit ds \<Longrightarrow>
   0 \<le> foldl (\<lambda>a c. 10 * a + (of_char c - 48)) (a::int) ds"
  by (induction ds arbitrary: a) (auto simp: is_digit_def)

lemma digits_val_nonneg: "list_all is_digit ds \<Longrightarrow> 0 \<le> digits_val ds"
  by (simp add: digits_val_def digits_val_nonneg_aux)

lemma amount_micro_nonneg:
  assumes "is_amount s"
  shows "0 \<le> amount_micro s"
proof -
  have ip: "list_all is_digit (takeWhile is_digit s)"
    by (auto simp: list_all_iff dest: set_takeWhileD)
  have fp: "list_all is_digit (drop 1 (dropWhile is_digit s))"
  proof (cases "dropWhile is_digit s = []")
    case True
    have "drop 1 (dropWhile is_digit s) = []" unfolding True by simp
    then show ?thesis by simp
  next
    case False
    with assms show ?thesis unfolding is_amount_def Let_def by (auto simp: drop_Suc)
  qed
  from digits_val_nonneg[OF ip] digits_val_nonneg[OF fp] show ?thesis
    by (simp add: amount_micro_def Let_def)
qed

text \<open>
  Up to 1000 amounts with a total of at most four million: the double-precision sum
  is within \<open>2000 / 2^32\<close> of the exact sum.
\<close>

lemma float_sum_error:
  assumes "list_all is_amount as" "length as \<le> 1000"
    and "sum_list (map amount_micro as) \<le> 4000000000000"
  shows "\<exists>y. foldl (\<lambda>sum a. js_add sum (parseFloat rt a)) (Fin 0) as = Fin y \<and> 0 \<le> y \<and>
     \<bar>y - of_int (sum_list (map amount_micro as)) / 10 ^ 6\<bar> \<le> of_nat (2 * length as) / 2 ^ 32"
  using assms
proof (induction as rule: rev_induct)
  case Nil
  show ?case by simp
next
  case (snoc a as)
  from snoc.prems have va: "is_amount a" and vas: "list_all is_amount as"
    and len: "length as < 1000" by simp_all
  from va have a0: "0 \<le> amount_micro a" by (rule amount_micro_nonneg)
  have s0: "0 \<le> sum_list (map amount_micro as)"
    using vas by (intro sum_list_nonneg) (auto simp: list_all_iff amount_micro_nonneg)
  from snoc.prems(3) a0 s0 have sa: "sum_list (map amount_micro as) \<le> 4000000000000"
    and abound: "amount_micro a \<le> 4000000000000"
    and tot: "sum_list (map amount_micro as) + amount_micro a \<le> 4000000000000" by simp_all
  from snoc.IH[OF vas _ sa] len obtain y where
    y: "foldl (\<lambda>sum a. js_add sum (parseFloat rt a)) (Fin 0) as = Fin y" "0 \<le> y"
      "\<bar>y - of_int (sum_list (map amount_micro as)) / 10 ^ 6\<bar> \<le> of_nat (2 * length as) / 2 ^ 32"
    by auto
  define \<epsilon> :: rat where "\<epsilon> = 1 / 2 ^ 32"
  have eps: "(2::rat) powi (int 22 - 54) = \<epsilon>"
    by (simp add: power_int_def power_divide \<epsilon>_def)
  have ev: "\<epsilon> = 1 / 4294967296" and e0: "0 \<le> \<epsilon>" by (simp_all add: \<epsilon>_def)
  define av :: rat where "av = of_int (amount_micro a) / 10 ^ 6"
  define sv :: rat where "sv = of_int (sum_list (map amount_micro as)) / 10 ^ 6"
  have av0: "0 \<le> av" using a0 by (simp add: av_def)
  have avb: "av \<le> 4000000" using abound by (simp add: av_def field_simps)
  have svav: "sv + av \<le> 4000000"
  proof -
    have "sv + av = of_int (sum_list (map amount_micro as) + amount_micro a) / 10 ^ 6"
      by (simp add: sv_def av_def add_divide_distrib)
    also have "\<dots> \<le> of_int 4000000000000 / 10 ^ 6"
      using tot by (intro divide_right_mono) (simp_all only: of_int_le_iff, simp)
    finally show ?thesis by simp
  qed
  have "av < 2 ^ 22" using avb by simp
  from to_double_error[OF av0 this] obtain b where
    b: "to_double av = Fin b" "0 \<le> b" "\<bar>b - av\<bar> \<le> \<epsilon>"
    using eps by auto
  have pf: "parseFloat rt a = Fin b"
    using va b(1) by (simp add: parseFloat_def amount_value_def av_def)
  have y3: "\<bar>y - sv\<bar> \<le> of_nat (2 * length as) * \<epsilon>"
    using y(3) by (simp add: sv_def \<epsilon>_def)
  have n: "(of_nat (2 * length as) :: rat) \<le> 1998"
  proof -
    from len have "2 * length as \<le> 1998" by simp
    then have "(of_nat (2 * length as) :: rat) \<le> of_nat 1998" by (simp only: of_nat_le_iff)
    then show ?thesis by simp
  qed
  have "(of_nat (2 * length as) :: rat) * \<epsilon> \<le> 1998 * \<epsilon>"
    using n e0 by (rule mult_right_mono)
  with y3 have yb: "\<bar>y - sv\<bar> \<le> 1998 * \<epsilon>" by linarith
  have yb0: "0 \<le> y + b" using y(2) b(2) by simp
  have "y + b \<le> sv + av + 1999 * \<epsilon>" using yb b(3) by linarith
  also have "\<dots> \<le> 4000000 + 1999 * \<epsilon>" using svav by simp
  also have "\<dots> < 2 ^ 22" by (simp add: ev)
  finally have ybb: "y + b < 2 ^ 22" .
  from to_double_error[OF yb0 ybb] obtain z where
    z: "to_double (y + b) = Fin z" "0 \<le> z" "\<bar>z - (y + b)\<bar> \<le> \<epsilon>"
    using eps by auto
  have step: "foldl (\<lambda>sum a. js_add sum (parseFloat rt a)) (Fin 0) (as @ [a]) = Fin z"
    using y(1) pf z(1) by simp
  have "\<bar>z - (sv + av)\<bar> \<le> \<bar>z - (y + b)\<bar> + \<bar>y - sv\<bar> + \<bar>b - av\<bar>" by linarith
  also have "\<dots> \<le> \<epsilon> + of_nat (2 * length as) * \<epsilon> + \<epsilon>"
    using z(3) y3 b(3) by linarith
  also have "\<dots> = of_nat (2 * length (as @ [a])) / 2 ^ 32"
    by (simp add: \<epsilon>_def field_simps)
  finally have "\<bar>z - (sv + av)\<bar> \<le> of_nat (2 * length (as @ [a])) / 2 ^ 32" .
  moreover have "sv + av = of_int (sum_list (map amount_micro (as @ [a]))) / 10 ^ 6"
    by (simp add: sv_def av_def add_divide_distrib)
  ultimately show ?case using step z(2) by auto
qed

lemma toFixed6_near:
  assumes "0 \<le> y" "0 \<le> n" "\<bar>y - of_int n / 10 ^ 6\<bar> < 1 / (2 * 10 ^ 6)"
    and "n \<le> 4000000000000"
  shows "toFixed6 rt (Fin y) = fixed6 n"
proof -
  define Y where "Y = y * 10 ^ 6"
  from assms(3) have d: "\<bar>Y - of_int n\<bar> < 1 / 2"
    by (simp add: abs_less_iff field_simps Y_def)
  have "\<lfloor>Y + 1 / 2\<rfloor> = n"
  proof (rule floor_unique)
    from d show "of_int n \<le> Y + 1 / 2" by linarith
    from d show "Y + 1 / 2 < of_int n + 1" by linarith
  qed
  then have "\<lfloor>y * 10 ^ 6 + 1 / 2\<rfloor> = n" by (simp add: Y_def)
  moreover have "y < 10 ^ 21"
  proof -
    have "of_int n \<le> (of_int 4000000000000 :: rat)" using assms(4) by (simp only: of_int_le_iff)
    with d have "Y < 4000000000001" by linarith
    then show ?thesis by (simp add: Y_def)
  qed
  ultimately show ?thesis using assms(1) by (simp add: toFixed6_def)
qed

text \<open>The total of up to 1000 valid amounts summing to at most four million is exact.\<close>

lemma calculateTotalAmount_exact:
  assumes "list_all is_amount as" "length as \<le> 1000"
    and "sum_list (map amount_micro as) \<le> 4000000000000"
  shows "calculateTotalAmount rt as = fixed6 (sum_list (map amount_micro as))"
proof -
  from float_sum_error[OF assms, of rt] obtain y where
    y: "foldl (\<lambda>sum a. js_add sum (parseFloat rt a)) (Fin 0) as = Fin y" "0 \<le> y"
      "\<bar>y - of_int (sum_list (map amount_micro as)) / 10 ^ 6\<bar> \<le> of_nat (2 * length as) / 2 ^ 32"
    by blast
  have s0: "0 \<le> sum_list (map amount_micro as)"
    using assms(1) by (intro sum_list_nonneg) (auto simp: list_all_iff amount_micro_nonneg)
  have "(of_nat (2 * length as) :: rat) \<le> of_nat 2000"
    using assms(2) by (simp only: of_nat_le_iff)
  then have "(of_nat (2 * length as) :: rat) / 2 ^ 32 \<le> 2000 / 2 ^ 32"
    by (intro divide_right_mono) simp_all
  also have "\<dots> < 1 / (2 * 10 ^ 6)" by simp
  finally have "\<bar>y - of_int (sum_list (map amount_micro as)) / 10 ^ 6\<bar> < 1 / (2 * 10 ^ 6)"
    using y(3) by linarith
  from toFixed6_near[OF y(2) s0 this assms(3)] y(1) show ?thesis
    by (simp add: calculateTotalAmount_def)
qed

text \<open>The items the loop creates carry the rows' amounts, one item per row.\<close>

lemma create_row_amounts:
  "map amount (fst (snd (create_row pv rid row st))) =
   map amount (fst (snd st)) @ [row_amount row]"
  by (cases st) (simp add: create_row_def Let_def split: prod.splits)

lemma create_rows_amounts:
  "map amount (fst (snd (create_rows pv rid rows st))) =
   map amount (fst (snd st)) @ map row_amount rows"
  by (induction rows arbitrary: st) (simp_all add: create_row_amounts)

lemma createPayrollRun_result:
  "\<exists>r. fst (createPayrollRun rt pv admin rows s) = Inr r \<and>
       totalAmount (created_payrollRun r) = calculateTotalAmount rt (map row_amount rows) \<and>
       totalWorkers (created_payrollRun r) = length rows \<and>
       map amount (created_payrollItems r) = map row_amount rows"
proof -
  let ?s0 = "s\<lparr>payrollRuns := payrollRuns s @
      [\<lparr>run_id = nextId s, adminId = admin, run_status = Run_DRAFT,
        totalAmount = calculateTotalAmount rt (map row_amount rows),
        totalWorkers = length rows, run_completedAt = None\<rparr>], nextId := Suc (nextId s)\<rparr>"
  obtain s1 acc ev where loop: "create_rows pv (nextId s) rows (?s0, [], []) = (s1, acc, ev)"
    by (cases "create_rows pv (nextId s) rows (?s0, [], [])") auto
  from create_rows_amounts[of pv "nextId s" rows "(?s0, [], [])"] loop
  have "map amount acc = map row_amount rows" by simp
  with loop show ?thesis by (simp add: createPayrollRun_def Let_def)
qed

text \<open>
  C3, as the code has it. The total is the double-precision sum of the parsed amounts,
  printed with six decimals. For every batch of at most 1000 rows whose amounts are
  of the amount format and sum to at most 4,000,000, the run's \<open>totalAmount\<close> is
  the exact decimal sum of the created items' amounts (written with six decimals).
  For every batch \<open>totalWorkers\<close> is the number of created items, which carry the
  rows' amounts.
\<close>

theorem total_amount_exact:
  "\<exists>r. fst (createPayrollRun rt pv admin rows s) = Inr r
     \<and> totalWorkers (created_payrollRun r) = length (created_payrollItems r)
     \<and> map amount (created_payrollItems r) = map row_amount rows
     \<and> (list_all is_amount (map amount (created_payrollItems r)) \<and>
         length (created_payrollItems r) \<le> 1000 \<and>
         sum_list (map amount_micro (map amount (created_payrollItems r))) \<le> 4000000000000 \<longrightarrow>
         totalAmount (created_payrollRun r) =
           fixed6 (sum_list (map amount_micro (map amount (created_payrollItems r)))))"
proof -
  from createPayrollRun_result[of rt pv admin rows s] obtain r where
    r: "fst (createPayrollRun rt pv admin rows s) = Inr r"
      "totalAmount (created_payrollRun r) = calculateTotalAmount rt (map row_amount rows)"
      "totalWorkers (created_payrollRun r) = length rows"
      "map amount (created_payrollItems r) = map row_amount rows" by blast
  from r(4) have len: "length (created_payrollItems r) = length rows"
    by (metis length_map)
  have exact: "totalAmount (created_payrollRun r) =
      fixed6 (sum_list (map amount_micro (map amount (created_payrollItems r))))"
    if "list_all is_amount (map amount (created_payrollItems r))"
      "length (created_payrollItems r) \<le> 1000"
      "sum_list (map amount_micro (map amount (created_payrollItems r))) \<le> 4000000000000"
  proof -
    from that(1) have p1: "list_all is_amount (map row_amount rows)" by (simp only: r(4))
    from that(2) have p2: "length (map row_amount rows) \<le> 1000" by (simp only: len length_map)
    from that(3) have p3: "sum_list (map amount_micro (map row_amount rows)) \<le> 4000000000000"
      by (simp only: r(4))
    from calculateTotalAmount_exact[OF p1 p2 p3, of rt] show ?thesis
      by (simp only: r(2) r(4))
  qed
  show ?thesis
  proof (intro exI[of _ r] conjI impI)
    show "fst (createPayrollRun rt pv admin rows s) = Inr r" by (rule r(1))
    show "totalWorkers (created_payrollRun r) = length (created_payrollItems r)"
      using r(3) len by simp
    show "map amount (created_payrollItems r) = map row_amount rows" by (rule r(4))
    assume "list_all is_amount (map amount (created_payrollItems r)) \<and>
      length (created_payrollItems r) \<le> 1000 \<and>
      sum_list (map amount_micro (map amount (created_payrollItems r))) \<le> 4000000000000"
    then show "totalAmount (created_payrollRun r) =
      fixed6 (sum_list (map amount_micro (map amount (created_payrollItems r))))"
      using exact by blast
  qed
qed

theorem total_amount_exact_witness:
  "list_all is_amount (map row_amount example_rows) \<and> length example_rows \<le> 1000
   \<and> sum_list (map amount_micro (map row_amount example_rows)) = 15750000
   \<and> map_option totalAmount (created_run (createPayrollRun sample_builtins failing_provisioner
        ''admin-1'' example_rows empty_store)) = Some ''15.750000''
   \<and> map_option totalWorkers (created_run (createPayrollRun sample_builtins failing_provisioner
        ''admin-1'' example_rows empty_store)) = Some 2
   \<and> map amount (created_items (createPayrollRun sample_builtins failing_provisioner
        ''admin-1'' example_rows empty_store)) = [''10.50'', ''5.25'']"
proof -
  have v: "list_all is_amount (map row_amount example_rows)" by code_simp
  have l: "length example_rows \<le> 1000" by (simp add: example_rows_def)
  have l2: "length example_rows = 2" by (simp add: example_rows_def)
  have m: "sum_list (map amount_micro (map row_amount example_rows)) = 15750000" by code_simp
  have f: "fixed6 15750000 = ''15.750000''" by code_simp
  have rows: "map row_amount example_rows = [''10.50'', ''5.25'']"
    by (simp add: example_rows_def)
  from total_amount_exact[of sample_builtins failing_provisioner "''admin-1''" example_rows
      empty_store]
  obtain r where r: "fst (createPayrollRun sample_builtins failing_provisioner ''admin-1''
        example_rows empty_store) = Inr r"
      "totalWorkers (created_payrollRun r) = length (created_payrollItems r)"
      "map amount (created_payrollItems r) = map row_amount example_rows"
      "list_all is_amount (map amount (created_payrollItems r)) \<and>
         length (created_payrollItems r) \<le> 1000 \<and>
         sum_list (map amount_micro (map amount (created_payrollItems r))) \<le> 4000000000000 \<longrightarrow>
         totalAmount (created_payrollRun r) =
           fixed6 (sum_list (map amount_micro (map amount (created_payrollItems r))))"
    by blast
  from r(3) have len: "length (created_payrollItems r) = length example_rows"
    by (metis length_map)
  from r(4) v l m len have "totalAmount (created_payrollRun r) = ''15.750000''"
    unfolding r(3) by (simp add: f)
  with v l m r(1,2,3) len l2 rows show ?thesis
    by (simp add: created_run_def created_items_def)
qed

text \<open>
  C3 as stated fails for large amounts: a single row of 9007199254740993 (2^53 + 1)
  gives the total 9007199254740992.000000, and a single row of 8589934592.000001
  gives 8589934592.000002, while the exact sums are the amounts themselves.
\<close>

theorem total_amount_drifts:
  "list_all is_amount (map row_amount (large_row ''9007199254740993''))
   \<and> map_option totalAmount (created_run (createPayrollRun sample_builtins failing_provisioner
        ''admin-1'' (large_row ''9007199254740993'') empty_store)) =
       Some ''9007199254740992.000000''
   \<and> fixed6 (sum_list (map amount_micro (map amount (created_items (createPayrollRun
        sample_builtins failing_provisioner ''admin-1'' (large_row ''9007199254740993'')
        empty_store))))) = ''9007199254740993.000000''
   \<and> amount_micro ''9007199254740992.000000'' = 9007199254740992000000
   \<and> amount_micro ''9007199254740993'' = 9007199254740993000000
   \<and> list_all is_amount (map row_amount (large_row ''8589934592.000001''))
   \<and> map_option totalAmount (created_run (createPayrollRun sample_builtins failing_provisioner
        ''admin-1'' (large_row ''8589934592.000001'') empty_store)) =
       Some ''8589934592.000002''"
  by code_simp

end
